theory Spec2Isabelle
  imports Complex_Main "HOL-Library.Word"
begin

unbundle bit_operations_syntax

section \<open>Python values shared by the modules\<close>

text \<open>
  Strings are byte strings (\<^typ>\<open>string\<close>): the text after \<open>.encode()\<close>. Every exception the
  modelled code can raise is a value of \<open>py_error\<close>; a function that can raise returns
  \<open>py_error + 'a\<close> with \<open>Inl\<close> for the exception.
\<close>

datatype py_error =
    ConnectionError
  | ResponseError
  | ValueError
  | JSONDecodeError
  | KeyError
  | TypeError
  | ZeroDivisionError
  | OverflowError
  | DBAPIError

definition startswith :: "string \<Rightarrow> string \<Rightarrow> bool" where
  "startswith s p = (take (length p) s = p)"

text \<open>\<open>"0" * n\<close>: the empty string for \<open>n \<le> 0\<close>.\<close>

definition zeros :: "int \<Rightarrow> string" where
  "zeros n = replicate (nat n) (CHR ''0'')"

definition digit_char :: "nat \<Rightarrow> char" where
  "digit_char d = (''0123456789'' ! d)"

function str_nat :: "nat \<Rightarrow> string" where
  "str_nat n = (if n < 10 then [digit_char n] else str_nat (n div 10) @ [digit_char (n mod 10)])"
  by pat_completeness auto
termination
  by (relation "measure id") auto

declare str_nat.simps [simp del]

text \<open>\<open>str(n)\<close> of a Python int.\<close>

definition str_int :: "int \<Rightarrow> string" where
  "str_int n = (if n < 0 then CHR ''-'' # str_nat (nat (- n)) else str_nat (nat n))"

definition digit_val :: "char \<Rightarrow> nat option" where
  "digit_val c = map_of (zip ''0123456789'' [0, 1, 2, 3, 4, 5, 6, 7, 8, 9]) c"

definition parse_nat :: "string \<Rightarrow> nat option" where
  "parse_nat s =
     (if s = [] then None
      else foldl (\<lambda>a c. case a of None \<Rightarrow> None
                         | Some n \<Rightarrow> (case digit_val c of None \<Rightarrow> None | Some d \<Rightarrow> Some (10 * n + d)))
             (Some 0) s)"

text \<open>
  \<open>int(s)\<close> of a decimal text: an optional sign and at least one digit, else ValueError.
  (Python also accepts surrounding blanks and underscores; the store never holds those.)
\<close>

definition int_of_str :: "string \<Rightarrow> py_error + int" where
  "int_of_str s =
     (case (case s of
              c # rest \<Rightarrow>
                (if c = CHR ''-'' then map_option (\<lambda>n. - int n) (parse_nat rest)
                 else if c = CHR ''+'' then map_option int (parse_nat rest)
                 else map_option int (parse_nat s))
            | [] \<Rightarrow> None) of
        None \<Rightarrow> Inl ValueError
      | Some n \<Rightarrow> Inr n)"

text \<open>\<open>str.lower()\<close> on ASCII text.\<close>

definition lower_char :: "char \<Rightarrow> char" where
  "lower_char c =
     (case map_of (zip ''ABCDEFGHIJKLMNOPQRSTUVWXYZ'' ''abcdefghijklmnopqrstuvwxyz'') c of
        None \<Rightarrow> c
      | Some l \<Rightarrow> l)"

definition lower :: "string \<Rightarrow> string" where
  "lower s = map lower_char s"

section \<open>hashlib.sha256 and hmac\<close>

text \<open>
  SHA-256 on byte strings, with 32-bit words. The round constants and the initial hash
  value are written in decimal.
\<close>

definition sha_K :: "32 word list" where
  "sha_K = [1116352408, 1899447441, 3049323471, 3921009573,
     961987163, 1508970993, 2453635748, 2870763221,
     3624381080, 310598401, 607225278, 1426881987,
     1925078388, 2162078206, 2614888103, 3248222580,
     3835390401, 4022224774, 264347078, 604807628,
     770255983, 1249150122, 1555081692, 1996064986,
     2554220882, 2821834349, 2952996808, 3210313671,
     3336571891, 3584528711, 113926993, 338241895,
     666307205, 773529912, 1294757372, 1396182291,
     1695183700, 1986661051, 2177026350, 2456956037,
     2730485921, 2820302411, 3259730800, 3345764771,
     3516065817, 3600352804, 4094571909, 275423344,
     430227734, 506948616, 659060556, 883997877,
     958139571, 1322822218, 1537002063, 1747873779,
     1955562222, 2024104815, 2227730452, 2361852424,
     2428436474, 2756734187, 3204031479, 3329325298]"

definition sha_H0 :: "32 word list" where
  "sha_H0 = [1779033703, 3144134277, 1013904242, 2773480762, 1359893119, 2600822924, 528734635, 1541459225]"

definition rotr :: "nat \<Rightarrow> 32 word \<Rightarrow> 32 word" where
  "rotr n w = (drop_bit n w) OR (push_bit (32 - n) w)"

definition big_s0 :: "32 word \<Rightarrow> 32 word" where
  "big_s0 x = rotr 2 x XOR rotr 13 x XOR rotr 22 x"

definition big_s1 :: "32 word \<Rightarrow> 32 word" where
  "big_s1 x = rotr 6 x XOR rotr 11 x XOR rotr 25 x"

definition small_s0 :: "32 word \<Rightarrow> 32 word" where
  "small_s0 x = rotr 7 x XOR rotr 18 x XOR drop_bit 3 x"

definition small_s1 :: "32 word \<Rightarrow> 32 word" where
  "small_s1 x = rotr 17 x XOR rotr 19 x XOR drop_bit 10 x"

definition ch :: "32 word \<Rightarrow> 32 word \<Rightarrow> 32 word \<Rightarrow> 32 word" where
  "ch x y z = (x AND y) XOR (NOT x AND z)"

definition maj :: "32 word \<Rightarrow> 32 word \<Rightarrow> 32 word \<Rightarrow> 32 word" where
  "maj x y z = (x AND y) XOR (x AND z) XOR (y AND z)"

text \<open>The message schedule, built newest word first.\<close>

fun extend :: "nat \<Rightarrow> 32 word list \<Rightarrow> 32 word list" where
  "extend 0 ws = ws"
| "extend (Suc n) ws =
     extend n ((small_s1 (ws ! 1) + ws ! 6 + small_s0 (ws ! 14) + ws ! 15) # ws)"

definition schedule :: "32 word list \<Rightarrow> 32 word list" where
  "schedule block = rev (extend 48 (rev block))"

fun round1 :: "32 word \<times> 32 word \<Rightarrow> 32 word list \<Rightarrow> 32 word list" where
  "round1 (k, w) [a, b, c, d, e, f, g, h] =
     (let t1 = h + big_s1 e + ch e f g + k + w;
          t2 = big_s0 a + maj a b c
      in [t1 + t2, a, b, c, d + t1, e, f, g])"
| "round1 _ st = st"

definition compress :: "32 word list \<Rightarrow> 32 word list \<Rightarrow> 32 word list" where
  "compress st block = map2 (+) st (fold round1 (zip sha_K (schedule block)) st)"

fun be32 :: "string \<Rightarrow> 32 word list" where
  "be32 (a # b # c # d # rest) =
     (push_bit 24 (of_char a) + push_bit 16 (of_char b) + push_bit 8 (of_char c) + of_char d)
       # be32 rest"
| "be32 _ = []"

definition pad :: "string \<Rightarrow> string" where
  "pad m =
     (let l = length m; z = (119 - l mod 64) mod 64; bits = (of_nat (8 * l) :: 64 word)
      in m @ [char_of (128::nat)] @ replicate z (char_of (0::nat)) @
         map (\<lambda>i. char_of (uint (drop_bit (8 * (7 - i)) bits))) [0..<8])"

fun blocks :: "nat \<Rightarrow> 32 word list \<Rightarrow> 32 word list list" where
  "blocks 0 ws = []"
| "blocks (Suc n) ws = take 16 ws # blocks n (drop 16 ws)"

definition sha256_words :: "string \<Rightarrow> 32 word list" where
  "sha256_words m =
     (let ws = be32 (pad m)
      in fold (\<lambda>b st. compress st b) (blocks (length ws div 16) ws) sha_H0)"

definition hexdigit :: "nat \<Rightarrow> char" where
  "hexdigit n = (''0123456789abcdef'' ! n)"

definition hex32 :: "32 word \<Rightarrow> string" where
  "hex32 w = map (\<lambda>i. hexdigit (unat (drop_bit (4 * (7 - i)) w AND 15))) [0..<8]"

definition bytes32 :: "32 word \<Rightarrow> string" where
  "bytes32 w = map (\<lambda>i. char_of (uint (drop_bit (8 * (3 - i)) w))) [0..<4]"

text \<open>\<open>hashlib.sha256(m).digest()\<close> and \<open>.hexdigest()\<close>.\<close>

definition sha256_digest :: "string \<Rightarrow> string" where
  "sha256_digest m = concat (map bytes32 (sha256_words m))"

definition sha256_hexdigest :: "string \<Rightarrow> string" where
  "sha256_hexdigest m = concat (map hex32 (sha256_words m))"

definition xor_bytes :: "nat \<Rightarrow> string \<Rightarrow> string" where
  "xor_bytes p s = map (\<lambda>c. char_of ((of_char c :: nat) XOR p)) s"

text \<open>\<open>hmac.new(key, msg, hashlib.sha256).hexdigest()\<close>.\<close>

definition hmac_sha256_hexdigest :: "string \<Rightarrow> string \<Rightarrow> string" where
  "hmac_sha256_hexdigest key msg =
     (let k0 = (if length key > 64 then sha256_digest key else key);
          k = k0 @ replicate (64 - length k0) (char_of (0::nat))
      in sha256_hexdigest (xor_bytes 0x5c k @ sha256_digest (xor_bytes 0x36 k @ msg)))"

section \<open>The shared expiring store (Redis)\<close>

text \<open>
  Values are texts. A text written with \<open>json.dumps\<close> is kept as the document it encodes
  (\<open>Doc\<close>), one constructor per dictionary shape the modules write; every other text
  (the counters of INCR, the flag \<open>"1"\<close>) is \<open>Text\<close>. Key expiry is not modelled:
  \<open>setex\<close> and \<open>expire\<close> keep the key. A store that cannot be reached is \<open>Down\<close>: every
  command raises ConnectionError.
\<close>

record pow_record =
  pr_ip :: string
  pr_resource :: string
  pr_nonce :: string
  pr_timestamp :: int
  pr_difficulty :: int
  pr_used :: bool

datatype json_doc =
    MathDoc string
  | PowDoc string int real
  | PowRec pow_record
  | TokenRec string string int

text \<open>
  \<open>MathDoc answer\<close> is \<open>{"answer": answer, "type": "math"}\<close>;
  \<open>PowDoc challenge difficulty created\<close> is
  \<open>{"challenge": .., "difficulty": .., "type": "pow", "created": ..}\<close>;
  \<open>PowRec\<close> is the dictionary of \<open>ServerSidePoW.create_challenge\<close>;
  \<open>TokenRec ip resource timestamp\<close> is the dictionary of \<open>_generate_access_token\<close>.
\<close>

datatype rval = Text string | Doc json_doc

datatype json_value = JDict json_doc | JNumber int

datatype redis = Down | Up "string \<rightharpoonup> rval"

text \<open>Truth value of a reply: the empty text is false.\<close>

fun truthy :: "rval \<Rightarrow> bool" where
  "truthy (Text s) = (s \<noteq> [])"
| "truthy (Doc d) = True"

text \<open>\<open>int(reply)\<close>.\<close>

fun py_int :: "rval \<Rightarrow> py_error + int" where
  "py_int (Text s) = int_of_str s"
| "py_int (Doc d) = Inl ValueError"

text \<open>
  \<open>json.loads(reply)\<close>. Of the texts that are not documents only canonical decimal
  integers are decoded (what INCR writes); any other text counts as undecodable.
\<close>

fun json_loads :: "rval \<Rightarrow> py_error + json_value" where
  "json_loads (Doc d) = Inr (JDict d)"
| "json_loads (Text s) =
     (case int_of_str s of
        Inl e \<Rightarrow> Inl JSONDecodeError
      | Inr n \<Rightarrow> if str_int n = s then Inr (JNumber n) else Inl JSONDecodeError)"

fun redis_get :: "redis \<Rightarrow> string \<Rightarrow> py_error + rval option" where
  "redis_get Down k = Inl ConnectionError"
| "redis_get (Up m) k = Inr (m k)"

fun redis_setex :: "redis \<Rightarrow> string \<Rightarrow> int \<Rightarrow> rval \<Rightarrow> py_error + redis" where
  "redis_setex Down k ttl v = Inl ConnectionError"
| "redis_setex (Up m) k ttl v = Inr (Up (m(k \<mapsto> v)))"

fun redis_delete :: "redis \<Rightarrow> string \<Rightarrow> py_error + redis" where
  "redis_delete Down k = Inl ConnectionError"
| "redis_delete (Up m) k = Inr (Up (m(k := None)))"

text \<open>INCR: a missing key counts as 0; a value that is not a 64-bit integer is an error.\<close>

definition redis_incr :: "redis \<Rightarrow> string \<Rightarrow> py_error + redis" where
  "redis_incr r k =
     (case r of
        Down \<Rightarrow> Inl ConnectionError
      | Up m \<Rightarrow>
          (case (case m k of None \<Rightarrow> Inr 0 | Some v \<Rightarrow> py_int v) of
             Inl e \<Rightarrow> Inl ResponseError
           | Inr n \<Rightarrow>
               if n + 1 < - (2 ^ 63) \<or> 2 ^ 63 \<le> n + 1 then Inl ResponseError
               else Inr (Up (m(k \<mapsto> Text (str_int (n + 1)))))))"

text \<open>Sequencing of calls that can raise.\<close>

definition and_then :: "'e + 'a \<Rightarrow> ('a \<Rightarrow> 'e + 'b) \<Rightarrow> 'e + 'b" where
  "and_then x f = (case x of Inl e \<Rightarrow> Inl e | Inr a \<Rightarrow> f a)"

section \<open>core/defense.py: AdaptiveSecurityResponse\<close>

datatype action = NoAction | SimpleMath | ProofOfWork | TempBlock | PermanentBlock | Blocked

text \<open>
  The strings \<open>"none"\<close>, \<open>"simple_math"\<close>, \<open>"proof_of_work"\<close>, \<open>"temp_block"\<close>,
  \<open>"permanent_block"\<close> and \<open>"blocked"\<close>.
\<close>

record level =
  lv_attempts :: int
  lv_action :: action
  lv_difficulty :: int

definition levels :: "level list" where
  "levels =
     [\<lparr>lv_attempts = 0, lv_action = NoAction, lv_difficulty = 0\<rparr>,
      \<lparr>lv_attempts = 3, lv_action = SimpleMath, lv_difficulty = 1\<rparr>,
      \<lparr>lv_attempts = 5, lv_action = ProofOfWork, lv_difficulty = 2\<rparr>,
      \<lparr>lv_attempts = 10, lv_action = ProofOfWork, lv_difficulty = 3\<rparr>,
      \<lparr>lv_attempts = 15, lv_action = ProofOfWork, lv_difficulty = 4\<rparr>,
      \<lparr>lv_attempts = 20, lv_action = TempBlock, lv_difficulty = 300\<rparr>,
      \<lparr>lv_attempts = 30, lv_action = TempBlock, lv_difficulty = 3600\<rparr>,
      \<lparr>lv_attempts = 50, lv_action = PermanentBlock, lv_difficulty = 0\<rparr>]"

text \<open>The dictionary \<open>get_threat_level\<close> returns; the \<open>"blocked"\<close> one has no difficulty.\<close>

record threat =
  th_action :: action
  th_difficulty :: "int option"
  th_attempts :: int

text \<open>
  The loop over \<open>reversed(self.levels)\<close> with the \<open>return\<close> after it
  (lines 59 to 68 of \<open>get_threat_level\<close>).
\<close>

definition find_level :: "int \<Rightarrow> threat" where
  "find_level attempts =
     (case find (\<lambda>level. attempts \<ge> lv_attempts level) (rev levels) of
        Some level \<Rightarrow>
          \<lparr>th_action = lv_action level, th_difficulty = Some (lv_difficulty level),
           th_attempts = attempts\<rparr>
      | None \<Rightarrow> \<lparr>th_action = NoAction, th_difficulty = Some 0, th_attempts = 0\<rparr>)"

text \<open>One of the three reads: \<open>if x: attempts = max(attempts, int(x))\<close>.\<close>

definition max_attempts :: "int \<Rightarrow> rval option \<Rightarrow> py_error + int" where
  "max_attempts attempts reply =
     (case reply of
        None \<Rightarrow> Inr attempts
      | Some x \<Rightarrow> if truthy x then and_then (py_int x) (\<lambda>n. Inr (max attempts n)) else Inr attempts)"

definition is_set :: "rval option \<Rightarrow> bool" where
  "is_set reply = (case reply of None \<Rightarrow> False | Some x \<Rightarrow> truthy x)"

definition get_threat_level :: "redis \<Rightarrow> string \<Rightarrow> py_error + threat" where
  "get_threat_level r identifier =
     and_then (redis_get r (''asr:attempts:ip:'' @ identifier)) (\<lambda>ip_attempts.
     and_then (max_attempts 0 ip_attempts) (\<lambda>attempts1.
     and_then (redis_get r (''asr:attempts:email:'' @ identifier)) (\<lambda>email_attempts.
     and_then (max_attempts attempts1 email_attempts) (\<lambda>attempts2.
     and_then (redis_get r (''asr:attempts:fp:'' @ identifier)) (\<lambda>fp_attempts.
     and_then (max_attempts attempts2 fp_attempts) (\<lambda>attempts.
     and_then (redis_get r (''asr:blocked:'' @ identifier)) (\<lambda>blocked.
       if is_set blocked
       then Inr \<lparr>th_action = Blocked, th_difficulty = None, th_attempts = attempts\<rparr>
       else Inr (find_level attempts))))))))"

text \<open>\<open>if email:\<close> and \<open>if fingerprint:\<close> hold for a non-empty string only.\<close>

definition given :: "string option \<Rightarrow> bool" where
  "given x = (case x of None \<Rightarrow> False | Some s \<Rightarrow> s \<noteq> [])"

definition email_key :: "string \<Rightarrow> string" where
  "email_key email = ''asr:attempts:email:'' @ take 16 (sha256_hexdigest (lower email))"

text \<open>The pipeline runs its queued commands in order when \<open>execute\<close> is called.\<close>

definition record_failure :: "redis \<Rightarrow> string \<Rightarrow> string option \<Rightarrow> string option \<Rightarrow> py_error + redis" where
  "record_failure r ip email fingerprint =
     and_then (redis_incr r (''asr:attempts:ip:'' @ ip)) (\<lambda>r1.
     and_then (if given email then redis_incr r1 (email_key (the email)) else Inr r1) (\<lambda>r2.
     and_then (if given fingerprint then redis_incr r2 (''asr:attempts:fp:'' @ the fingerprint)
               else Inr r2) (\<lambda>r3.
     and_then (get_threat_level r3 ip) (\<lambda>threat_level.
       if th_action threat_level = PermanentBlock
       then redis_setex r3 (''asr:blocked:'' @ ip) (86400 * 30) (Text ''1'')
       else Inr r3))))"

definition verify_challenge :: "redis \<Rightarrow> string \<Rightarrow> string \<Rightarrow> py_error + bool \<times> redis" where
  "verify_challenge r challenge_id solution =
     (if challenge_id = [] \<or> solution = [] then Inr (False, r)
      else
        and_then (redis_get r (''asr:challenge:'' @ challenge_id)) (\<lambda>challenge_data.
          if \<not> is_set challenge_data then Inr (False, r)
          else
            (case json_loads (the challenge_data) of
               Inl e \<Rightarrow> Inr (False, r)
             | Inr data \<Rightarrow>
                 (case redis_delete r (''asr:challenge:'' @ challenge_id) of
                    Inl e \<Rightarrow> Inr (False, r)
                  | Inr r' \<Rightarrow>
                      (case data of
                         JDict (MathDoc answer) \<Rightarrow> Inr (solution = answer, r')
                       | JDict (PowDoc challenge difficulty created) \<Rightarrow>
                           Inr (startswith (sha256_hexdigest (challenge @ solution))
                                  (zeros difficulty), r')
                       | _ \<Rightarrow> Inr (False, r'))))))"

text \<open>
  The dictionary \<open>create_challenge\<close> returns. \<open>NoChallenge\<close> is
  \<open>{"type": "none", "challenge": None}\<close>; \<open>PowChallenge\<close> also carries
  \<open>"algorithm": "sha256"\<close>.
\<close>

datatype challenge =
    NoChallenge
  | MathChallenge string string int
  | PowChallenge string string int
  | TempBlockChallenge int string

text \<open>
  \<open>a\<close> and \<open>b\<close> are the two values of \<open>secrets.randbelow(10)\<close>, \<open>token32\<close> and
  \<open>token16\<close> the values of \<open>secrets.token_urlsafe(32)\<close> and \<open>secrets.token_urlsafe(16)\<close>,
  \<open>now\<close> the reading of \<open>time.time()\<close>.
\<close>

definition create_challenge ::
  "redis \<Rightarrow> int \<Rightarrow> int \<Rightarrow> string \<Rightarrow> string \<Rightarrow> real \<Rightarrow> string
     \<Rightarrow> py_error + challenge option \<times> redis" where
  "create_challenge r a b token32 token16 now identifier =
     and_then (get_threat_level r identifier) (\<lambda>threat.
       if th_action threat = Blocked then Inr (None, r)
       else if th_action threat = NoAction then Inr (Some NoChallenge, r)
       else if th_action threat = SimpleMath then
         (let a' = a + 1; b' = b + 1; answer = a' + b'; challenge_id = token16
          in and_then (redis_setex r (''asr:challenge:'' @ challenge_id) 60
                         (Doc (MathDoc (str_int answer)))) (\<lambda>r'.
               Inr (Some (MathChallenge challenge_id
                            (''What is '' @ str_int a' @ '' + '' @ str_int b' @ ''?'')
                            (the (th_difficulty threat))), r')))
       else if th_action threat = ProofOfWork then
         (let challenge = token32; difficulty = the (th_difficulty threat);
              challenge_id = token16
          in and_then (redis_setex r (''asr:challenge:'' @ challenge_id) 60
                         (Doc (PowDoc challenge difficulty now))) (\<lambda>r'.
               Inr (Some (PowChallenge challenge_id challenge difficulty), r')))
       else if th_action threat = TempBlock then
         Inr (Some (TempBlockChallenge (the (th_difficulty threat))
                      (''Too many failed attempts. Try again in ''
                         @ str_int (the (th_difficulty threat)) @ '' seconds.'')), r)
       else Inr (None, r))"

subsection \<open>The restrictiveness order of the escalation ladder\<close>

text \<open>
  The order the specification puts on actions: none, then the arithmetic challenge, then
  proof of work (a higher difficulty is more restrictive), then the timed block (a longer
  one is more restrictive), then the permanent block.
\<close>

fun action_rank :: "action \<Rightarrow> nat" where
  "action_rank NoAction = 0"
| "action_rank SimpleMath = 1"
| "action_rank ProofOfWork = 2"
| "action_rank TempBlock = 3"
| "action_rank PermanentBlock = 4"
| "action_rank Blocked = 5"

fun has_parameter :: "action \<Rightarrow> bool" where
  "has_parameter ProofOfWork = True"
| "has_parameter TempBlock = True"
| "has_parameter _ = False"

definition parameter :: "threat \<Rightarrow> int" where
  "parameter t = (case th_difficulty t of None \<Rightarrow> 0 | Some d \<Rightarrow> d)"

text \<open>\<open>less_restrictive a b\<close>: action \<open>a\<close> is strictly less restrictive than action \<open>b\<close>.\<close>

definition less_restrictive :: "threat \<Rightarrow> threat \<Rightarrow> bool" where
  "less_restrictive a b =
     (action_rank (th_action a) < action_rank (th_action b) \<or>
      (th_action a = th_action b \<and> has_parameter (th_action a) \<and> parameter a < parameter b))"

subsection \<open>Predicates of the specification\<close>

text \<open>The number of leading \<open>'0'\<close> characters of a hexadecimal digest.\<close>

definition leading_zeros :: "string \<Rightarrow> nat" where
  "leading_zeros h = length (takeWhile (\<lambda>c. c = CHR ''0'') h)"

section \<open>core/server_pow.py: ServerSidePoW\<close>

text \<open>
  \<open>self.redis\<close> is an optional client (\<open>None\<close> when the service was built without one);
  \<open>secret_key\<close> is \<open>settings.get_secret_key.encode()\<close>. Values drawn from \<open>secrets\<close> and
  readings of \<open>time.time()\<close> are arguments.
\<close>

definition challenge_ttl :: real where
  "challenge_ttl = 300"

definition get_difficulty_for_ip :: "redis option \<Rightarrow> string \<Rightarrow> py_error + int" where
  "get_difficulty_for_ip rc ip =
     (case rc of
        None \<Rightarrow> Inr 3
      | Some r \<Rightarrow>
          and_then (redis_get r (''failures:'' @ ip)) (\<lambda>failures.
            if is_set failures
            then and_then (py_int (the failures)) (\<lambda>failure_count.
                   if failure_count > 50 then Inr 6
                   else if failure_count > 20 then Inr 5
                   else if failure_count > 10 then Inr 4
                   else Inr 3)
            else Inr 3))"

definition sign_challenge :: "string \<Rightarrow> string \<Rightarrow> string \<Rightarrow> int \<Rightarrow> string" where
  "sign_challenge secret_key challenge_id nonce difficulty =
     hmac_sha256_hexdigest secret_key (challenge_id @ '':'' @ nonce @ '':'' @ str_int difficulty)"

text \<open>The dictionary handed to the client.\<close>

record pow_challenge =
  pc_challenge_id :: string
  pc_nonce :: string
  pc_difficulty :: int
  pc_target :: string
  pc_signature :: string
  pc_expires_in :: real

definition ServerSidePoW_create_challenge ::
  "redis option \<Rightarrow> string \<Rightarrow> string \<Rightarrow> string \<Rightarrow> real \<Rightarrow> string \<Rightarrow> string
     \<Rightarrow> py_error + (string \<times> pow_challenge) \<times> redis option" where
  "ServerSidePoW_create_challenge rc secret_key challenge_id nonce now ip resource =
     and_then (get_difficulty_for_ip rc ip) (\<lambda>difficulty.
       let challenge_data =
             \<lparr>pr_ip = ip, pr_resource = resource, pr_nonce = nonce, pr_timestamp = \<lfloor>now\<rfloor>,
              pr_difficulty = difficulty, pr_used = False\<rparr>
       in and_then (case rc of
                      None \<Rightarrow> Inr None
                    | Some r \<Rightarrow>
                        and_then (redis_setex r (''pow:'' @ challenge_id) 300 (Doc (PowRec challenge_data)))
                          (\<lambda>r'. Inr (Some r'))) (\<lambda>rc'.
            Inr ((challenge_id,
                  \<lparr>pc_challenge_id = challenge_id, pc_nonce = nonce, pc_difficulty = difficulty,
                   pc_target = zeros difficulty,
                   pc_signature = sign_challenge secret_key challenge_id nonce difficulty,
                   pc_expires_in = challenge_ttl\<rparr>), rc')))"

definition generate_access_token ::
  "redis option \<Rightarrow> string \<Rightarrow> real \<Rightarrow> string \<Rightarrow> string \<Rightarrow> py_error + string \<times> redis option" where
  "generate_access_token rc secret_key now ip resource =
     (let timestamp = \<lfloor>now\<rfloor>;
          token_data = ip @ '':'' @ resource @ '':'' @ str_int timestamp;
          signature = hmac_sha256_hexdigest secret_key token_data;
          token = str_int timestamp @ '':'' @ signature
      in case rc of
           None \<Rightarrow> Inr (token, None)
         | Some r \<Rightarrow>
             and_then (redis_setex r (''pow_token:'' @ token) 300 (Doc (TokenRec ip resource timestamp)))
               (\<lambda>r'. Inr (token, Some r')))"

text \<open>
  \<open>now\<close> is the clock read by the expiry check, \<open>now_token\<close> the later reading of
  \<open>_generate_access_token\<close>. \<open>challenge_data['used']\<close> on a document of another shape is a
  KeyError, on a number a TypeError; neither is caught.
\<close>

definition ServerSidePoW_verify_challenge ::
  "redis option \<Rightarrow> string \<Rightarrow> real \<Rightarrow> real \<Rightarrow> string \<Rightarrow> string \<Rightarrow> string \<Rightarrow> string
     \<Rightarrow> py_error + (bool \<times> string option) \<times> redis option" where
  "ServerSidePoW_verify_challenge rc secret_key now now_token challenge_id solution ip resource =
     (case rc of
        None \<Rightarrow> Inr ((False, None), rc)
      | Some r \<Rightarrow>
          and_then (redis_get r (''pow:'' @ challenge_id)) (\<lambda>data.
            if \<not> is_set data then Inr ((False, None), rc)
            else
              and_then (json_loads (the data)) (\<lambda>loaded.
                case loaded of
                  JNumber n \<Rightarrow> Inl TypeError
                | JDict (PowRec challenge_data) \<Rightarrow>
                    if pr_used challenge_data then Inr ((False, None), rc)
                    else if pr_ip challenge_data \<noteq> ip then Inr ((False, None), rc)
                    else if pr_resource challenge_data \<noteq> resource then Inr ((False, None), rc)
                    else if now - real_of_int (pr_timestamp challenge_data) > challenge_ttl
                      then Inr ((False, None), rc)
                    else
                      (let nonce = pr_nonce challenge_data;
                           difficulty = pr_difficulty challenge_data;
                           attempt = nonce @ '':'' @ solution;
                           hash_result = sha256_hexdigest attempt;
                           is_valid = startswith hash_result (zeros difficulty)
                       in if is_valid
                          then
                            and_then (redis_setex r (''pow:'' @ challenge_id) 60
                                        (Doc (PowRec (challenge_data\<lparr>pr_used := True\<rparr>)))) (\<lambda>r1.
                            and_then (generate_access_token (Some r1) secret_key now_token ip resource)
                              (\<lambda>(access_token, rc2). Inr ((True, Some access_token), rc2)))
                          else Inr ((False, None), rc))
                | JDict other \<Rightarrow> Inl KeyError)))"

section \<open>core/download_tokens.py: DownloadTokenManager\<close>

record token_data =
  td_file_id :: string
  td_user_ip :: string
  td_password_verified :: bool
  td_created_at :: real
  td_used :: bool

text \<open>\<open>self.tokens\<close>, keyed by the SHA-256 hex digest of the token.\<close>

type_synonym tokens = "string \<rightharpoonup> token_data"

definition token_expiry :: real where
  "token_expiry = 60"

definition cleanup_expired :: "tokens \<Rightarrow> real \<Rightarrow> tokens" where
  "cleanup_expired toks current_time =
     (\<lambda>token_hash.
        case toks token_hash of
          None \<Rightarrow> None
        | Some data \<Rightarrow>
            if td_used data \<or> current_time - td_created_at data > token_expiry then None
            else Some data)"

text \<open>
  \<open>token\<close> is the value of \<open>secrets.token_urlsafe(32)\<close>; \<open>now\<close> is the clock stored as
  \<open>created_at\<close>, \<open>now_cleanup\<close> the later reading of \<open>_cleanup_expired\<close>.
\<close>

definition create_download_token ::
  "tokens \<Rightarrow> string \<Rightarrow> real \<Rightarrow> real \<Rightarrow> string \<Rightarrow> string \<Rightarrow> bool \<Rightarrow> string \<times> tokens" where
  "create_download_token toks token now now_cleanup file_id user_ip password_verified =
     (let token_hash = sha256_hexdigest token;
          toks1 = toks(token_hash \<mapsto>
                    \<lparr>td_file_id = file_id, td_user_ip = user_ip,
                     td_password_verified = password_verified, td_created_at = now,
                     td_used = False\<rparr>)
      in (token, cleanup_expired toks1 now_cleanup))"

definition verify_download_token ::
  "tokens \<Rightarrow> real \<Rightarrow> string \<Rightarrow> string \<Rightarrow> string \<Rightarrow> bool \<times> tokens" where
  "verify_download_token toks now token file_id user_ip =
     (if token = [] then (False, toks)
      else
        (let token_hash = sha256_hexdigest token
         in case toks token_hash of
              None \<Rightarrow> (False, toks)
            | Some data \<Rightarrow>
                if td_used data then (False, toks)
                else if now - td_created_at data > token_expiry
                  then (False, toks(token_hash := None))
                else if td_file_id data \<noteq> file_id then (False, toks)
                else if td_user_ip data \<noteq> user_ip then (False, toks)
                else (True, toks(token_hash \<mapsto> data\<lparr>td_used := True\<rparr>))))"

text \<open>A call on the manager, and a run of calls on its dictionary.\<close>

datatype manager_call =
    Create string real real string string bool
  | Verify real string string string

fun run_call :: "tokens \<Rightarrow> manager_call \<Rightarrow> tokens" where
  "run_call toks (Create token now now_cleanup file_id user_ip pv) =
     snd (create_download_token toks token now now_cleanup file_id user_ip pv)"
| "run_call toks (Verify now token file_id user_ip) =
     snd (verify_download_token toks now token file_id user_ip)"

fun mints :: "manager_call \<Rightarrow> string option" where
  "mints (Create token now now_cleanup file_id user_ip pv) = Some token"
| "mints (Verify now token file_id user_ip) = None"

definition run_calls :: "tokens \<Rightarrow> manager_call list \<Rightarrow> tokens" where
  "run_calls toks calls = foldl run_call toks calls"

text \<open>A token that can no longer be redeemed: its record is gone or marked used.\<close>

definition consumed :: "tokens \<Rightarrow> string \<Rightarrow> bool" where
  "consumed toks token =
     (case toks (sha256_hexdigest token) of None \<Rightarrow> True | Some data \<Rightarrow> td_used data)"

section \<open>core/captcha.py: MathCaptcha\<close>

record captcha_data =
  cp_answer :: string
  cp_created_at :: real

type_synonym captcha_store = "string \<rightharpoonup> captcha_data"

definition captcha_expiry :: real where
  "captcha_expiry = 300"

datatype operation = Plus | Minus | Times

text \<open>The operator symbols as the source file spells them (the third is five UTF-8 bytes).\<close>

fun op_symbol :: "operation \<Rightarrow> string" where
  "op_symbol Plus = ''+''"
| "op_symbol Minus = ''-''"
| "op_symbol Times = [CHR 0xC3, CHR 0x83, CHR 0xE2, CHR 0x80, CHR 0x94]"

fun op_func :: "operation \<Rightarrow> int \<Rightarrow> int \<Rightarrow> int" where
  "op_func Plus x y = x + y"
| "op_func Minus x y = x - y"
| "op_func Times x y = x * y"

text \<open>
  What one call of \<open>generate_captcha\<close> draws: the two values of \<open>random.randint(1, 20)\<close>, the
  choice of \<open>random.choice(operations)\<close>, and its three readings of \<open>time.time()\<close> (the
  first one as the text the f-string prints).
\<close>

record captcha_draw =
  dr_a :: int
  dr_b :: int
  dr_op :: operation
  dr_time_text :: string
  dr_created_at :: real
  dr_cleanup_time :: real

definition captcha_cleanup_expired :: "captcha_store \<Rightarrow> real \<Rightarrow> captcha_store" where
  "captcha_cleanup_expired store current_time =
     (\<lambda>k. case store k of
            None \<Rightarrow> None
          | Some v \<Rightarrow> if current_time - cp_created_at v > captcha_expiry then None else Some v)"

definition generate_captcha ::
  "captcha_store \<Rightarrow> string \<Rightarrow> captcha_draw \<Rightarrow> (string \<times> string) \<times> captcha_store" where
  "generate_captcha store secret_key draw =
     (let op = dr_op draw;
          swap = (op = Minus \<and> dr_a draw < dr_b draw);
          a = (if swap then dr_b draw else dr_a draw);
          b = (if swap then dr_a draw else dr_b draw);
          result = op_func op a b;
          question = ''What is '' @ str_int a @ '' '' @ op_symbol op @ '' '' @ str_int b @ ''?'';
          captcha_id =
            take 16 (sha256_hexdigest (str_int result @ dr_time_text draw @ secret_key));
          store1 = store(captcha_id \<mapsto>
                     \<lparr>cp_answer = str_int result, cp_created_at = dr_created_at draw\<rparr>)
      in ((captcha_id, question), captcha_cleanup_expired store1 (dr_cleanup_time draw)))"

text \<open>\<open>str.strip()\<close>: blanks of the ASCII range are removed at both ends.\<close>

definition is_space :: "char \<Rightarrow> bool" where
  "is_space c = (c \<in> set [CHR '' '', CHR 0x09, CHR 0x0A, CHR 0x0B, CHR 0x0C, CHR 0x0D,
                          CHR 0x1C, CHR 0x1D, CHR 0x1E, CHR 0x1F])"

definition strip :: "string \<Rightarrow> string" where
  "strip s = rev (dropWhile is_space (rev (dropWhile is_space s)))"

definition verify_captcha :: "captcha_store \<Rightarrow> real \<Rightarrow> string \<Rightarrow> string \<Rightarrow> bool \<times> captcha_store" where
  "verify_captcha store now captcha_id user_input =
     (if captcha_id = [] \<or> user_input = [] then (False, store)
      else
        (case store captcha_id of
           None \<Rightarrow> (False, store)
         | Some captcha_data \<Rightarrow>
             if now - cp_created_at captcha_data > captcha_expiry
             then (False, store(captcha_id := None))
             else (cp_answer captcha_data = strip user_input, store(captcha_id := None))))"

section \<open>api/v1/endpoints/secure_download.py: verify_file_password\<close>

text \<open>
  The columns of \<open>File\<close> the modelled code reads. \<open>f_id\<close> is \<open>file.id\<close>, a \<open>uuid.UUID\<close>
  object, kept by its text (\<open>str(file.id)\<close>). The table is keyed by \<open>short_code\<close>, which is
  unique.
\<close>

record File =
  f_id :: string
  f_password_hash :: "string option"
  f_max_password_attempts :: "int option"
  f_failed_password_attempts :: int
  f_deleted :: bool
  f_file_size :: int
  f_bandwidth_used :: "int option"

type_synonym files = "string \<rightharpoonup> File"

text \<open>The query \<open>short_code == code\<close> and \<open>deleted == False\<close>, with \<open>scalar_one_or_none\<close>.\<close>

definition select_file :: "files \<Rightarrow> string \<Rightarrow> File option" where
  "select_file db code =
     (case db code of None \<Rightarrow> None | Some f \<Rightarrow> if f_deleted f then None else Some f)"

record password_verify_request =
  rq_password :: string
  rq_captcha_id :: "string option"
  rq_captcha_answer :: "string option"

datatype audit_event_type =
    UNAUTHORIZED_ACCESS
  | CAPTCHA_FAILED
  | FILE_LOCKED
  | PASSWORD_ATTEMPT_FAILED
  | FILE_DOWNLOAD

text \<open>
  The argument \<open>resource_id\<close> of \<open>log_event\<close>: left out (\<open>None\<close>), a string, or a
  \<open>uuid.UUID\<close> object. The endpoint passes \<open>file.id\<close> itself, the object.
\<close>

datatype resource_id = NoResource | ResourceText string | UuidObject string

text \<open>An audit row: event type, client address, resource id, severity.\<close>

type_synonym audit_event = "audit_event_type \<times> string \<times> string option \<times> string"

text \<open>
  The detail of an \<open>HTTPException\<close>: a message, or the dictionary
  \<open>{"captcha_required": True, "captcha_id", "captcha_question", "attempts_remaining"}\<close>
  with its optional \<open>"error"\<close> entry.
\<close>

datatype detail =
    Message string
  | CaptchaRequired string string int "string option"

text \<open>
  What the client receives: the \<open>HTTPException\<close> raised, the \<open>PasswordVerifyResponse\<close>
  returned, or HTTP 500 for any other exception that leaves the endpoint.
\<close>

datatype response =
    HTTPException int detail
  | PasswordVerifyResponse string int
  | InternalServerError py_error

record app_state =
  st_files :: files
  st_captchas :: captcha_store
  st_tokens :: tokens
  st_audit :: "audit_event list"

text \<open>
  What a request brings from outside: the client address, the clock read by
  \<open>verify_captcha\<close>, the draw of \<open>generate_captcha\<close>, the token of \<open>secrets\<close> and the two
  clock readings of \<open>create_download_token\<close>, and the configured secret key.
\<close>

record environment =
  env_host :: string
  env_now :: real
  env_draw :: captcha_draw
  env_token :: string
  env_token_now :: real
  env_token_cleanup :: real
  env_secret_key :: string

text \<open>
  The response, the state left behind, and the seconds slept in \<open>asyncio.sleep\<close> before
  responding (if any).
\<close>

record outcome =
  oc_response :: response
  oc_state :: app_state
  oc_slept :: "real option"

text \<open>
  \<open>SecurityAuditor.log_event\<close> (core/audit_log.py): \<open>db.add\<close> of the \<open>AuditLog\<close> row and
  \<open>await db.commit()\<close>, with no handler around them. The column \<open>resource_id\<close> is
  \<open>String(100)\<close> and the engine is asyncpg (db/base.py), which refuses a \<open>uuid.UUID\<close> object
  for a text parameter: with such a \<open>resource_id\<close> the commit raises and no row is written.
  The line written to the log file after the commit is not modelled.
\<close>

definition log_event ::
  "app_state \<Rightarrow> audit_event_type \<Rightarrow> string \<Rightarrow> resource_id \<Rightarrow> string \<Rightarrow> py_error + app_state" where
  "log_event s event_type ip_address resource severity =
     (case resource of
        UuidObject u \<Rightarrow> Inl DBAPIError
      | NoResource \<Rightarrow>
          Inr (s\<lparr>st_audit := st_audit s @ [(event_type, ip_address, None, severity)]\<rparr>)
      | ResourceText r \<Rightarrow>
          Inr (s\<lparr>st_audit := st_audit s @ [(event_type, ip_address, Some r, severity)]\<rparr>))"

text \<open>
  \<open>file.max_password_attempts - file.failed_password_attempts if file.max_password_attempts
  else 999\<close>: a limit of \<open>None\<close> or 0 counts as no limit.
\<close>

definition has_limit :: "File \<Rightarrow> bool" where
  "has_limit f = (case f_max_password_attempts f of None \<Rightarrow> False | Some m \<Rightarrow> m \<noteq> 0)"

definition attempts_remaining :: "File \<Rightarrow> int" where
  "attempts_remaining f =
     (if has_limit f then the (f_max_password_attempts f) - f_failed_password_attempts f else 999)"

text \<open>
  \<open>2 ** min(failed_password_attempts, 5)\<close>, the seconds of \<open>asyncio.sleep\<close>. (For a negative
  exponent Python computes the float \<open>2.0 ** e\<close>.)
\<close>

definition backoff_delay :: "int \<Rightarrow> real" where
  "backoff_delay failed_password_attempts =
     (let e = min failed_password_attempts 5
      in if 0 \<le> e then 2 ^ nat e else 1 / 2 ^ nat (- e))"

text \<open>
  Lines 102 to 177: the lock check, the password check and the mint of the download
  token. \<open>verify_password\<close> is passlib's bcrypt check, an argument of the model. Every
  \<open>log_event\<close> here is called with \<open>resource_id=file.id\<close>. When it raises, the request ends
  with HTTP 500 at that line; what was committed or stored before stays
  (the counter written by the earlier \<open>db.commit()\<close>, the token minted in memory).
\<close>

definition password_stage ::
  "(string \<Rightarrow> string \<Rightarrow> bool) \<Rightarrow> app_state \<Rightarrow> environment \<Rightarrow> string \<Rightarrow> File
     \<Rightarrow> password_verify_request \<Rightarrow> outcome" where
  "password_stage verify_password s env code file data =
     (if has_limit file
         \<and> f_failed_password_attempts file \<ge> the (f_max_password_attempts file)
      then
        (case log_event s FILE_LOCKED (env_host env) (UuidObject (f_id file)) ''critical'' of
           Inl e \<Rightarrow> \<lparr>oc_response = InternalServerError e, oc_state = s, oc_slept = None\<rparr>
         | Inr s1 \<Rightarrow>
             \<lparr>oc_response =
                HTTPException 403 (Message ''File is locked due to too many failed attempts''),
              oc_state = s1, oc_slept = None\<rparr>)
      else if \<not> verify_password (rq_password data) (the (f_password_hash file))
      then
        (let file1 = file\<lparr>f_failed_password_attempts := f_failed_password_attempts file + 1\<rparr>;
             s1 = s\<lparr>st_files := (st_files s)(code \<mapsto> file1)\<rparr>
         in case log_event s1 PASSWORD_ATTEMPT_FAILED (env_host env) (UuidObject (f_id file))
                   ''warning'' of
              Inl e \<Rightarrow> \<lparr>oc_response = InternalServerError e, oc_state = s1, oc_slept = None\<rparr>
            | Inr s2 \<Rightarrow>
                (let slept = backoff_delay (f_failed_password_attempts file1);
                     remaining = attempts_remaining file1
                 in if f_failed_password_attempts file1 \<ge> 3
                    then
                      (case generate_captcha (st_captchas s2) (env_secret_key env) (env_draw env) of
                         ((captcha_id, question), captchas) \<Rightarrow>
                           \<lparr>oc_response =
                              HTTPException 428
                                (CaptchaRequired captcha_id question remaining
                                   (Some ''Incorrect password'')),
                            oc_state = s2\<lparr>st_captchas := captchas\<rparr>,
                            oc_slept = Some slept\<rparr>)
                    else
                      \<lparr>oc_response =
                         HTTPException 401
                           (Message (''Incorrect password. '' @ str_int remaining
                                       @ '' attempts remaining.'')),
                       oc_state = s2,
                       oc_slept = Some slept\<rparr>))
      else
        (let file1 = file\<lparr>f_failed_password_attempts := 0\<rparr>;
             s1 = s\<lparr>st_files := (st_files s)(code \<mapsto> file1)\<rparr>
         in case create_download_token (st_tokens s1) (env_token env) (env_token_now env)
                   (env_token_cleanup env) (f_id file) (env_host env) True of
              (download_token, toks) \<Rightarrow>
                (case log_event (s1\<lparr>st_tokens := toks\<rparr>) FILE_DOWNLOAD (env_host env)
                        (UuidObject (f_id file)) ''info'' of
                   Inl e \<Rightarrow>
                     \<lparr>oc_response = InternalServerError e, oc_state = s1\<lparr>st_tokens := toks\<rparr>,
                      oc_slept = None\<rparr>
                 | Inr s2 \<Rightarrow>
                     \<lparr>oc_response = PasswordVerifyResponse download_token 60, oc_state = s2,
                      oc_slept = None\<rparr>)))"

text \<open>
  Lines 51 to 100, then the stage above. The \<open>log_event\<close> of an unknown code has no
  \<open>resource_id\<close>; the one of a failed CAPTCHA has \<open>resource_id=file.id\<close>. The rate limiter
  of the route decorator is outside the model.
\<close>

definition verify_file_password ::
  "(string \<Rightarrow> string \<Rightarrow> bool) \<Rightarrow> app_state \<Rightarrow> environment \<Rightarrow> string
     \<Rightarrow> password_verify_request \<Rightarrow> outcome" where
  "verify_file_password verify_password s env code data =
     (case select_file (st_files s) code of
        None \<Rightarrow>
          (case log_event s UNAUTHORIZED_ACCESS (env_host env) NoResource ''warning'' of
             Inl e \<Rightarrow> \<lparr>oc_response = InternalServerError e, oc_state = s, oc_slept = None\<rparr>
           | Inr s1 \<Rightarrow>
               \<lparr>oc_response = HTTPException 404 (Message ''File not found''), oc_state = s1,
                oc_slept = None\<rparr>)
      | Some file \<Rightarrow>
          if \<not> given (f_password_hash file)
          then \<lparr>oc_response = HTTPException 400 (Message ''File does not require password''),
                 oc_state = s, oc_slept = None\<rparr>
          else if f_failed_password_attempts file \<ge> 3
          then
            (if \<not> given (rq_captcha_id data) \<or> \<not> given (rq_captcha_answer data)
             then
               (case generate_captcha (st_captchas s) (env_secret_key env) (env_draw env) of
                  ((captcha_id, question), captchas) \<Rightarrow>
                    \<lparr>oc_response =
                       HTTPException 428
                         (CaptchaRequired captcha_id question (attempts_remaining file) None),
                     oc_state = s\<lparr>st_captchas := captchas\<rparr>,
                     oc_slept = None\<rparr>)
             else
               (case verify_captcha (st_captchas s) (env_now env) (the (rq_captcha_id data))
                       (the (rq_captcha_answer data)) of
                  (ok, captchas) \<Rightarrow>
                    if \<not> ok
                    then
                      (case log_event (s\<lparr>st_captchas := captchas\<rparr>) CAPTCHA_FAILED
                              (env_host env) (UuidObject (f_id file)) ''warning'' of
                         Inl e \<Rightarrow>
                           \<lparr>oc_response = InternalServerError e,
                            oc_state = s\<lparr>st_captchas := captchas\<rparr>, oc_slept = None\<rparr>
                       | Inr s1 \<Rightarrow>
                           \<lparr>oc_response = HTTPException 400 (Message ''Invalid CAPTCHA answer''),
                            oc_state = s1, oc_slept = None\<rparr>)
                    else password_stage verify_password (s\<lparr>st_captchas := captchas\<rparr>) env code
                           file data))
          else password_stage verify_password s env code file data)"

section \<open>core/abuse_prevention.py: AbuseDetector.check_bandwidth_abuse\<close>

datatype user_tier = TierFree | TierPro | TierMax

text \<open>
  A Python float: a finite value or \<open>float('inf')\<close>. A finite value is written as the real
  number it rounds; nothing below depends on the rounding.
\<close>

datatype pyfloat = Finite real | PosInf

fun float_gt :: "pyfloat \<Rightarrow> pyfloat \<Rightarrow> bool" where
  "float_gt (Finite x) (Finite y) = (x > y)"
| "float_gt (Finite x) PosInf = False"
| "float_gt PosInf (Finite y) = True"
| "float_gt PosInf PosInf = False"

text \<open>\<open>THRESHOLDS["bandwidth_multiplier"]\<close>.\<close>

fun bandwidth_multiplier :: "user_tier \<Rightarrow> pyfloat" where
  "bandwidth_multiplier TierFree = PosInf"
| "bandwidth_multiplier TierPro = PosInf"
| "bandwidth_multiplier TierMax = PosInf"

text \<open>
  \<open>a / b\<close> on Python ints: ZeroDivisionError for \<open>b = 0\<close>, OverflowError when the quotient
  rounds beyond the largest double.
\<close>

definition py_truediv :: "int \<Rightarrow> int \<Rightarrow> py_error + pyfloat" where
  "py_truediv a b =
     (if b = 0 then Inl ZeroDivisionError
      else if \<bar>real_of_int a / real_of_int b\<bar> \<ge> 2 ^ 1024 - 2 ^ 970 then Inl OverflowError
      else Inr (Finite (real_of_int a / real_of_int b)))"

text \<open>The reason text of a flagged file, by the two numbers it prints.\<close>

datatype abuse_reason = BandwidthAbuse pyfloat pyfloat

definition check_bandwidth_abuse :: "File \<Rightarrow> user_tier \<Rightarrow> py_error + bool \<times> abuse_reason option" where
  "check_bandwidth_abuse file user_tier =
     (if (case f_bandwidth_used file of None \<Rightarrow> True | Some used \<Rightarrow> used = 0)
      then Inr (True, None)
      else
        and_then (py_truediv (the (f_bandwidth_used file)) (f_file_size file)) (\<lambda>multiplier.
          let threshold = bandwidth_multiplier user_tier
          in if float_gt multiplier threshold
             then Inr (False, Some (BandwidthAbuse multiplier threshold))
             else Inr (True, None)))"

text \<open>The range of a \<open>BigInteger\<close> column.\<close>

definition big_integer :: "int \<Rightarrow> bool" where
  "big_integer x = (- (2 ^ 63) \<le> x \<and> x < 2 ^ 63)"

section \<open>Example requests\<close>

text \<open>An address with three and one with five recorded failures, and nothing else.\<close>

definition three_failures :: redis where
  "three_failures = Up [''asr:attempts:ip:203.0.113.7'' \<mapsto> Text ''3'']"

definition five_failures :: redis where
  "five_failures = Up [''asr:attempts:ip:203.0.113.7'' \<mapsto> Text ''5'']"

definition asr_challenge_id :: string where
  "asr_challenge_id = ''Zq3kT8vLw1nXy7Rb2mC5dA''"

definition asr_challenge :: string where
  "asr_challenge = ''kX3vN8s1ZqYw0aTfR7uJ2mB5cD9eLhG4iOpQ6tVxWyE''"

definition pow_challenge_id :: string where
  "pow_challenge_id = ''0a1b2c3d4e5f60718293a4b5c6d7e8f9''"

definition pow_nonce :: string where
  "pow_nonce = ''5f2c8a1e9b3d4c7a6e0f1b2d3c4a5e6f''"

text \<open>
  A math challenge issued to the address with three failures (the draws 2 and 4 ask
  for 3 + 5), then two verifications.
\<close>

definition math_trace :: "string \<Rightarrow> string \<Rightarrow> py_error + challenge option \<times> bool \<times> bool" where
  "math_trace first second =
     and_then (create_challenge three_failures 2 4 asr_challenge asr_challenge_id 1000 ''203.0.113.7'')
       (\<lambda>(issued, r1).
     and_then (verify_challenge r1 asr_challenge_id first) (\<lambda>(ok1, r2).
     and_then (verify_challenge r2 asr_challenge_id second) (\<lambda>(ok2, r3).
       Inr (issued, ok1, ok2))))"

text \<open>A proof-of-work challenge of \<open>ServerSidePoW\<close> for a fresh address, then two verifications.\<close>

definition pow_trace :: "string \<Rightarrow> string \<Rightarrow> py_error + int \<times> bool \<times> bool" where
  "pow_trace first second =
     and_then (ServerSidePoW_create_challenge (Some (Up Map.empty)) ''secret'' pow_challenge_id
                 pow_nonce 1000 ''203.0.113.7'' ''file-1'') (\<lambda>((cid, issued), rc1).
     and_then (ServerSidePoW_verify_challenge rc1 ''secret'' 1010 1010 cid first
                 ''203.0.113.7'' ''file-1'') (\<lambda>((ok1, token1), rc2).
     and_then (ServerSidePoW_verify_challenge rc2 ''secret'' 1020 1020 cid second
                 ''203.0.113.7'' ''file-1'') (\<lambda>((ok2, token2), rc3).
       Inr (pc_difficulty issued, ok1, ok2))))"

text \<open>
  A proof-of-work challenge issued to the address with five failures, then one
  verification.
\<close>

definition asr_pow_trace :: "string \<Rightarrow> py_error + challenge option \<times> bool" where
  "asr_pow_trace solution =
     and_then (create_challenge five_failures 2 4 asr_challenge asr_challenge_id 1000 ''203.0.113.7'')
       (\<lambda>(issued, r1).
     and_then (verify_challenge r1 asr_challenge_id solution) (\<lambda>(ok, r2).
       Inr (issued, ok)))"

text \<open>
  Three failed logins for one account from one address; then the counter stored for the
  account, the threat level of another address, and the threat level of the first address.
\<close>

definition failed_logins_trace :: "py_error + rval option \<times> threat \<times> threat" where
  "failed_logins_trace =
     and_then (record_failure (Up Map.empty) ''198.51.100.1'' (Some ''Alice@example.com'') None) (\<lambda>r1.
     and_then (record_failure r1 ''198.51.100.1'' (Some ''Alice@example.com'') None) (\<lambda>r2.
     and_then (record_failure r2 ''198.51.100.1'' (Some ''Alice@example.com'') None) (\<lambda>r3.
     and_then (redis_get r3 (email_key ''alice@example.com'')) (\<lambda>counter.
     and_then (get_threat_level r3 ''203.0.113.9'') (\<lambda>other_address.
     and_then (get_threat_level r3 ''198.51.100.1'') (\<lambda>first_address.
       Inr (counter, other_address, first_address)))))))"

text \<open>A download token is minted and redeemed; later calls on the manager follow.\<close>

definition download_token :: string where
  "download_token = ''Yb7mQ2xW9cR4tL1vK8nH3sD6fJ0gZ5pA_eU-oIiTqNw''"

definition other_token :: string where
  "other_token = ''h4Gk9LpX2vB7nM1cQ8zR5tY0wE3uI6oA-sD_fJjKlZx''"

definition minted :: tokens where
  "minted = snd (create_download_token Map.empty download_token 1000 1000 ''file-1'' ''203.0.113.7'' True)"

definition redeemed :: tokens where
  "redeemed = snd (verify_download_token minted 1010 download_token ''file-1'' ''203.0.113.7'')"

definition later_calls :: "manager_call list" where
  "later_calls =
     [Verify 1011 download_token ''file-1'' ''203.0.113.7'',
      Create other_token 1012 1012 ''file-2'' ''198.51.100.1'' False,
      Verify 1013 download_token ''file-1'' ''198.51.100.1'']"

text \<open>
  Requests for the file with code \<open>abc123\<close>, whose password is \<open>hunter2\<close>.
  \<open>stub_verify_password\<close> stands in for the bcrypt check in the examples.
\<close>

definition stub_verify_password :: "string \<Rightarrow> string \<Rightarrow> bool" where
  "stub_verify_password plain_password hashed_password = (hashed_password = ''bcrypt:'' @ plain_password)"

definition shared_file :: "int option \<Rightarrow> int \<Rightarrow> File" where
  "shared_file limit failed =
     \<lparr>f_id = ''7d9f2c1e-4b3a-4e8f-9a6b-0c1d2e3f4a5b'', f_password_hash = Some ''bcrypt:hunter2'',
      f_max_password_attempts = limit, f_failed_password_attempts = failed,
      f_deleted = False, f_file_size = 1048576, f_bandwidth_used = Some 5242880\<rparr>"

text \<open>The state with that one file and one unexpired CAPTCHA whose answer is 12.\<close>

definition site :: "int option \<Rightarrow> int \<Rightarrow> app_state" where
  "site limit failed =
     \<lparr>st_files = [''abc123'' \<mapsto> shared_file limit failed],
      st_captchas = [''c0ffee0123456789'' \<mapsto> \<lparr>cp_answer = ''12'', cp_created_at = 990\<rparr>],
      st_tokens = Map.empty,
      st_audit = []\<rparr>"

definition visitor :: environment where
  "visitor =
     \<lparr>env_host = ''203.0.113.7'', env_now = 1000,
      env_draw = \<lparr>dr_a = 7, dr_b = 5, dr_op = Plus, dr_time_text = ''1000.25'',
                  dr_created_at = 1000, dr_cleanup_time = 1000\<rparr>,
      env_token = download_token, env_token_now = 1000, env_token_cleanup = 1000,
      env_secret_key = ''secret''\<rparr>"

definition attempt :: "string \<Rightarrow> password_verify_request" where
  "attempt password = \<lparr>rq_password = password, rq_captcha_id = None, rq_captcha_answer = None\<rparr>"

definition attempt_with_captcha :: "string \<Rightarrow> password_verify_request" where
  "attempt_with_captcha password =
     \<lparr>rq_password = password, rq_captcha_id = Some ''c0ffee0123456789'',
      rq_captcha_answer = Some ''12''\<rparr>"

text \<open>A wrong password for the file when it has no recorded failure and a limit of 10.\<close>

definition wrong_password_request :: outcome where
  "wrong_password_request =
     verify_file_password stub_verify_password (site (Some 10) 0) visitor ''abc123''
       (attempt ''letmein'')"

text \<open>The response that hands out a download token.\<close>

fun grants_access :: "response \<Rightarrow> bool" where
  "grants_access (PasswordVerifyResponse tok expires_in) = True"
| "grants_access (HTTPException code d) = False"
| "grants_access (InternalServerError e) = False"

definition locked_response :: response where
  "locked_response = HTTPException 403 (Message ''File is locked due to too many failed attempts'')"

definition not_found_response :: response where
  "not_found_response = HTTPException 404 (Message ''File not found'')"

section \<open>SHA-256 digests of the messages used below\<close>

text \<open>Each digest is computed in three steps: padding, compression, hexadecimal output.\<close>

lemma sha_block_asr_accepted:
  "be32 (pad ''kX3vN8s1ZqYw0aTfR7uJ2mB5cD9eLhG4iOpQ6tVxWyE80'') =
     [0x6b583376, 0x4e387331, 0x5a715977, 0x30615466,
      0x5237754a, 0x326d4235, 0x63443965, 0x4c684734,
      0x694f7051, 0x36745678, 0x57794538, 0x30800000,
      0x00000000, 0x00000000, 0x00000000, 0x00000168]"
  by code_simp

lemma sha_compress_asr_accepted:
  "compress sha_H0
     [0x6b583376, 0x4e387331, 0x5a715977, 0x30615466,
      0x5237754a, 0x326d4235, 0x63443965, 0x4c684734,
      0x694f7051, 0x36745678, 0x57794538, 0x30800000,
      0x00000000, 0x00000000, 0x00000000, 0x00000168] =
     [0x006129bc, 0x692aaaff, 0x251e0500, 0xf2de0644,
      0x5d7ef2db, 0x5e31017a, 0x6fd775be, 0x9b7b9efe]"
  by code_simp

lemma sha_hex_asr_accepted:
  "concat (map hex32
     [0x006129bc, 0x692aaaff, 0x251e0500, 0xf2de0644,
      0x5d7ef2db, 0x5e31017a, 0x6fd775be, 0x9b7b9efe]) =
     ''006129bc692aaaff251e0500f2de06445d7ef2db5e31017a6fd775be9b7b9efe''"
  by code_simp

lemma sha256_asr_accepted:
  "sha256_hexdigest ''kX3vN8s1ZqYw0aTfR7uJ2mB5cD9eLhG4iOpQ6tVxWyE80'' =
     ''006129bc692aaaff251e0500f2de06445d7ef2db5e31017a6fd775be9b7b9efe''"
proof -
  have "sha256_words ''kX3vN8s1ZqYw0aTfR7uJ2mB5cD9eLhG4iOpQ6tVxWyE80'' =
     [0x006129bc, 0x692aaaff, 0x251e0500, 0xf2de0644,
      0x5d7ef2db, 0x5e31017a, 0x6fd775be, 0x9b7b9efe]"
    by (simp add: sha256_words_def sha_block_asr_accepted sha_compress_asr_accepted)
  then show ?thesis
    by (simp only: sha256_hexdigest_def sha_hex_asr_accepted)
qed

lemma sha_block_asr_with_colon:
  "be32 (pad ''kX3vN8s1ZqYw0aTfR7uJ2mB5cD9eLhG4iOpQ6tVxWyE:80'') =
     [0x6b583376, 0x4e387331, 0x5a715977, 0x30615466,
      0x5237754a, 0x326d4235, 0x63443965, 0x4c684734,
      0x694f7051, 0x36745678, 0x5779453a, 0x38308000,
      0x00000000, 0x00000000, 0x00000000, 0x00000170]"
  by code_simp

lemma sha_compress_asr_with_colon:
  "compress sha_H0
     [0x6b583376, 0x4e387331, 0x5a715977, 0x30615466,
      0x5237754a, 0x326d4235, 0x63443965, 0x4c684734,
      0x694f7051, 0x36745678, 0x5779453a, 0x38308000,
      0x00000000, 0x00000000, 0x00000000, 0x00000170] =
     [0xe7198819, 0xee73ff65, 0x9707051a, 0x00d054fb,
      0x4f521a94, 0x23755d70, 0x2d07d431, 0xf1099d02]"
  by code_simp

lemma sha_hex_asr_with_colon:
  "concat (map hex32
     [0xe7198819, 0xee73ff65, 0x9707051a, 0x00d054fb,
      0x4f521a94, 0x23755d70, 0x2d07d431, 0xf1099d02]) =
     ''e7198819ee73ff659707051a00d054fb4f521a9423755d702d07d431f1099d02''"
  by code_simp

lemma sha256_asr_with_colon:
  "sha256_hexdigest ''kX3vN8s1ZqYw0aTfR7uJ2mB5cD9eLhG4iOpQ6tVxWyE:80'' =
     ''e7198819ee73ff659707051a00d054fb4f521a9423755d702d07d431f1099d02''"
proof -
  have "sha256_words ''kX3vN8s1ZqYw0aTfR7uJ2mB5cD9eLhG4iOpQ6tVxWyE:80'' =
     [0xe7198819, 0xee73ff65, 0x9707051a, 0x00d054fb,
      0x4f521a94, 0x23755d70, 0x2d07d431, 0xf1099d02]"
    by (simp add: sha256_words_def sha_block_asr_with_colon sha_compress_asr_with_colon)
  then show ?thesis
    by (simp only: sha256_hexdigest_def sha_hex_asr_with_colon)
qed

lemma sha_block_pow_solved:
  "be32 (pad ''5f2c8a1e9b3d4c7a6e0f1b2d3c4a5e6f:1074'') =
     [0x35663263, 0x38613165, 0x39623364, 0x34633761,
      0x36653066, 0x31623264, 0x33633461, 0x35653666,
      0x3a313037, 0x34800000, 0x00000000, 0x00000000,
      0x00000000, 0x00000000, 0x00000000, 0x00000128]"
  by code_simp

lemma sha_compress_pow_solved:
  "compress sha_H0
     [0x35663263, 0x38613165, 0x39623364, 0x34633761,
      0x36653066, 0x31623264, 0x33633461, 0x35653666,
      0x3a313037, 0x34800000, 0x00000000, 0x00000000,
      0x00000000, 0x00000000, 0x00000000, 0x00000128] =
     [0x0006a75f, 0x99839e10, 0x793dac58, 0x6060e11f,
      0x96d8c531, 0x2603b368, 0xfc60dbc4, 0x1342ae0e]"
  by code_simp

lemma sha_hex_pow_solved:
  "concat (map hex32
     [0x0006a75f, 0x99839e10, 0x793dac58, 0x6060e11f,
      0x96d8c531, 0x2603b368, 0xfc60dbc4, 0x1342ae0e]) =
     ''0006a75f99839e10793dac586060e11f96d8c5312603b368fc60dbc41342ae0e''"
  by code_simp

lemma sha256_pow_solved:
  "sha256_hexdigest ''5f2c8a1e9b3d4c7a6e0f1b2d3c4a5e6f:1074'' =
     ''0006a75f99839e10793dac586060e11f96d8c5312603b368fc60dbc41342ae0e''"
proof -
  have "sha256_words ''5f2c8a1e9b3d4c7a6e0f1b2d3c4a5e6f:1074'' =
     [0x0006a75f, 0x99839e10, 0x793dac58, 0x6060e11f,
      0x96d8c531, 0x2603b368, 0xfc60dbc4, 0x1342ae0e]"
    by (simp add: sha256_words_def sha_block_pow_solved sha_compress_pow_solved)
  then show ?thesis
    by (simp only: sha256_hexdigest_def sha_hex_pow_solved)
qed

lemma sha_block_pow_near_miss:
  "be32 (pad ''5f2c8a1e9b3d4c7a6e0f1b2d3c4a5e6f:227'') =
     [0x35663263, 0x38613165, 0x39623364, 0x34633761,
      0x36653066, 0x31623264, 0x33633461, 0x35653666,
      0x3a323237, 0x80000000, 0x00000000, 0x00000000,
      0x00000000, 0x00000000, 0x00000000, 0x00000120]"
  by code_simp

lemma sha_compress_pow_near_miss:
  "compress sha_H0
     [0x35663263, 0x38613165, 0x39623364, 0x34633761,
      0x36653066, 0x31623264, 0x33633461, 0x35653666,
      0x3a323237, 0x80000000, 0x00000000, 0x00000000,
      0x00000000, 0x00000000, 0x00000000, 0x00000120] =
     [0x00754ab3, 0x98cb5d6c, 0xc652b2c3, 0x8ebea239,
      0x9e2aa77f, 0x36016d52, 0xbc901587, 0xd30240df]"
  by code_simp

lemma sha_hex_pow_near_miss:
  "concat (map hex32
     [0x00754ab3, 0x98cb5d6c, 0xc652b2c3, 0x8ebea239,
      0x9e2aa77f, 0x36016d52, 0xbc901587, 0xd30240df]) =
     ''00754ab398cb5d6cc652b2c38ebea2399e2aa77f36016d52bc901587d30240df''"
  by code_simp

lemma sha256_pow_near_miss:
  "sha256_hexdigest ''5f2c8a1e9b3d4c7a6e0f1b2d3c4a5e6f:227'' =
     ''00754ab398cb5d6cc652b2c38ebea2399e2aa77f36016d52bc901587d30240df''"
proof -
  have "sha256_words ''5f2c8a1e9b3d4c7a6e0f1b2d3c4a5e6f:227'' =
     [0x00754ab3, 0x98cb5d6c, 0xc652b2c3, 0x8ebea239,
      0x9e2aa77f, 0x36016d52, 0xbc901587, 0xd30240df]"
    by (simp add: sha256_words_def sha_block_pow_near_miss sha_compress_pow_near_miss)
  then show ?thesis
    by (simp only: sha256_hexdigest_def sha_hex_pow_near_miss)
qed

lemma sha_block_download_token:
  "be32 (pad ''Yb7mQ2xW9cR4tL1vK8nH3sD6fJ0gZ5pA_eU-oIiTqNw'') =
     [0x5962376d, 0x51327857, 0x39635234, 0x744c3176,
      0x4b386e48, 0x33734436, 0x664a3067, 0x5a357041,
      0x5f65552d, 0x6f496954, 0x714e7780, 0x00000000,
      0x00000000, 0x00000000, 0x00000000, 0x00000158]"
  by code_simp

lemma sha_compress_download_token:
  "compress sha_H0
     [0x5962376d, 0x51327857, 0x39635234, 0x744c3176,
      0x4b386e48, 0x33734436, 0x664a3067, 0x5a357041,
      0x5f65552d, 0x6f496954, 0x714e7780, 0x00000000,
      0x00000000, 0x00000000, 0x00000000, 0x00000158] =
     [0x4f578220, 0x775c52e1, 0x6c2d5cf7, 0x4b232da1,
      0x60a33c02, 0x0fed3f26, 0xa55ecf8a, 0x37e5e8ff]"
  by code_simp

lemma sha_hex_download_token:
  "concat (map hex32
     [0x4f578220, 0x775c52e1, 0x6c2d5cf7, 0x4b232da1,
      0x60a33c02, 0x0fed3f26, 0xa55ecf8a, 0x37e5e8ff]) =
     ''4f578220775c52e16c2d5cf74b232da160a33c020fed3f26a55ecf8a37e5e8ff''"
  by code_simp

lemma sha256_download_token:
  "sha256_hexdigest ''Yb7mQ2xW9cR4tL1vK8nH3sD6fJ0gZ5pA_eU-oIiTqNw'' =
     ''4f578220775c52e16c2d5cf74b232da160a33c020fed3f26a55ecf8a37e5e8ff''"
proof -
  have "sha256_words ''Yb7mQ2xW9cR4tL1vK8nH3sD6fJ0gZ5pA_eU-oIiTqNw'' =
     [0x4f578220, 0x775c52e1, 0x6c2d5cf7, 0x4b232da1,
      0x60a33c02, 0x0fed3f26, 0xa55ecf8a, 0x37e5e8ff]"
    by (simp add: sha256_words_def sha_block_download_token sha_compress_download_token)
  then show ?thesis
    by (simp only: sha256_hexdigest_def sha_hex_download_token)
qed

lemma sha_block_other_token:
  "be32 (pad ''h4Gk9LpX2vB7nM1cQ8zR5tY0wE3uI6oA-sD_fJjKlZx'') =
     [0x6834476b, 0x394c7058, 0x32764237, 0x6e4d3163,
      0x51387a52, 0x35745930, 0x77453375, 0x49366f41,
      0x2d73445f, 0x664a6a4b, 0x6c5a7880, 0x00000000,
      0x00000000, 0x00000000, 0x00000000, 0x00000158]"
  by code_simp

lemma sha_compress_other_token:
  "compress sha_H0
     [0x6834476b, 0x394c7058, 0x32764237, 0x6e4d3163,
      0x51387a52, 0x35745930, 0x77453375, 0x49366f41,
      0x2d73445f, 0x664a6a4b, 0x6c5a7880, 0x00000000,
      0x00000000, 0x00000000, 0x00000000, 0x00000158] =
     [0x5e61bf83, 0xa0229b83, 0x0f5043b5, 0x81a0ea69,
      0x9ac904e7, 0x4edbc1ef, 0xb8aa59bd, 0x8df5212e]"
  by code_simp

lemma sha_hex_other_token:
  "concat (map hex32
     [0x5e61bf83, 0xa0229b83, 0x0f5043b5, 0x81a0ea69,
      0x9ac904e7, 0x4edbc1ef, 0xb8aa59bd, 0x8df5212e]) =
     ''5e61bf83a0229b830f5043b581a0ea699ac904e74edbc1efb8aa59bd8df5212e''"
  by code_simp

lemma sha256_other_token:
  "sha256_hexdigest ''h4Gk9LpX2vB7nM1cQ8zR5tY0wE3uI6oA-sD_fJjKlZx'' =
     ''5e61bf83a0229b830f5043b581a0ea699ac904e74edbc1efb8aa59bd8df5212e''"
proof -
  have "sha256_words ''h4Gk9LpX2vB7nM1cQ8zR5tY0wE3uI6oA-sD_fJjKlZx'' =
     [0x5e61bf83, 0xa0229b83, 0x0f5043b5, 0x81a0ea69,
      0x9ac904e7, 0x4edbc1ef, 0xb8aa59bd, 0x8df5212e]"
    by (simp add: sha256_words_def sha_block_other_token sha_compress_other_token)
  then show ?thesis
    by (simp only: sha256_hexdigest_def sha_hex_other_token)
qed

section \<open>The shape of a digest\<close>

lemma round1_length: "length st = 8 \<Longrightarrow> length (round1 kw st) = 8"
proof -
  assume "length st = 8"
  then obtain a b c d e f g h where "st = [a, b, c, d, e, f, g, h]"
    by (auto simp: length_Suc_conv eval_nat_numeral)
  then show ?thesis
    by (cases kw) (simp add: Let_def)
qed

lemma fold_round1_length: "length st = 8 \<Longrightarrow> length (fold round1 kws st) = 8"
  by (induction kws arbitrary: st) (simp_all add: round1_length)

lemma compress_length: "length st = 8 \<Longrightarrow> length (compress st block) = 8"
  by (simp add: compress_def fold_round1_length)

lemma fold_compress_length:
  "length st = 8 \<Longrightarrow> length (fold (\<lambda>b st. compress st b) bs st) = 8"
  by (induction bs arbitrary: st) (simp_all add: compress_length)

lemma sha256_words_length: "length (sha256_words m) = 8"
  by (simp add: sha256_words_def Let_def fold_compress_length sha_H0_def)

lemma hex_words_length: "length (concat (map hex32 ws)) = 8 * length ws"
  by (induction ws) (simp_all add: hex32_def)

lemma sha256_hexdigest_length: "length (sha256_hexdigest m) = 64"
  by (simp add: sha256_hexdigest_def hex_words_length sha256_words_length)

section \<open>Properties of the escalation ladder and the threat ledger\<close>

lemma find_level_ladder:
  "find_level n =
     (if 50 \<le> n then \<lparr>th_action = PermanentBlock, th_difficulty = Some 0, th_attempts = n\<rparr>
      else if 30 \<le> n then \<lparr>th_action = TempBlock, th_difficulty = Some 3600, th_attempts = n\<rparr>
      else if 20 \<le> n then \<lparr>th_action = TempBlock, th_difficulty = Some 300, th_attempts = n\<rparr>
      else if 15 \<le> n then \<lparr>th_action = ProofOfWork, th_difficulty = Some 4, th_attempts = n\<rparr>
      else if 10 \<le> n then \<lparr>th_action = ProofOfWork, th_difficulty = Some 3, th_attempts = n\<rparr>
      else if 5 \<le> n then \<lparr>th_action = ProofOfWork, th_difficulty = Some 2, th_attempts = n\<rparr>
      else if 3 \<le> n then \<lparr>th_action = SimpleMath, th_difficulty = Some 1, th_attempts = n\<rparr>
      else if 0 \<le> n then \<lparr>th_action = NoAction, th_difficulty = Some 0, th_attempts = n\<rparr>
      else \<lparr>th_action = NoAction, th_difficulty = Some 0, th_attempts = 0\<rparr>)"
  by (simp add: find_level_def levels_def)

text \<open>
  C6. Monotonic escalation: for all failure counts \<open>f1 < f2\<close> the action the ladder
  requires at \<open>f2\<close> is never less restrictive than the action it requires at \<open>f1\<close>.
\<close>

theorem escalation_monotonic:
  "f1 < f2 \<Longrightarrow> \<not> less_restrictive (find_level f2) (find_level f1)"
  by (simp add: find_level_ladder less_restrictive_def parameter_def)

theorem escalation_monotonic_witness:
  "(9::int) < 10 \<and> \<not> less_restrictive (find_level 10) (find_level 9)
   \<and> find_level 9 = \<lparr>th_action = ProofOfWork, th_difficulty = Some 2, th_attempts = 9\<rparr>
   \<and> find_level 10 = \<lparr>th_action = ProofOfWork, th_difficulty = Some 3, th_attempts = 10\<rparr>"
  using escalation_monotonic [of 9 10] by (simp add: find_level_ladder)

text \<open>
  C4 (as the code has it). When the store cannot be reached, \<open>get_threat_level\<close> returns no
  threat level at all: the connection error of its first read reaches the caller.
\<close>

theorem get_threat_level_store_down:
  "get_threat_level Down identifier = Inl ConnectionError"
  by (simp add: get_threat_level_def and_then_def)

text \<open>C4 as stated fails: with the store down the query for an address is an error, not level 0.\<close>

theorem get_threat_level_fail_open_counterexample:
  "get_threat_level Down ''203.0.113.7'' = Inl ConnectionError
   \<and> get_threat_level Down ''203.0.113.7''
       \<noteq> Inr \<lparr>th_action = NoAction, th_difficulty = Some 0, th_attempts = 0\<rparr>"
  by (simp add: get_threat_level_def and_then_def)

section \<open>Single use of challenges\<close>

lemma pow_token_key_differs: "''pow_token:'' @ t \<noteq> ''pow:'' @ c"
  by simp

lemma verify_challenge_consumes:
  assumes "challenge_id \<noteq> []" and "solution \<noteq> []"
    and "verify_challenge r challenge_id solution = Inr (ok, r')"
  shows "redis_get r' (''asr:challenge:'' @ challenge_id) = Inr None
         \<or> (\<exists>v. redis_get r' (''asr:challenge:'' @ challenge_id) = Inr (Some v)
                  \<and> (\<not> truthy v \<or> json_loads v = Inl JSONDecodeError))"
proof (cases r)
  case Down
  with assms show ?thesis
    by (auto simp: verify_challenge_def and_then_def)
next
  case (Up m)
  show ?thesis
  proof (cases "m (''asr:challenge:'' @ challenge_id)")
    case None
    with assms Up show ?thesis
      by (auto simp: verify_challenge_def and_then_def is_set_def)
  next
    case (Some v)
    show ?thesis
    proof (cases "truthy v")
      case False
      with assms Up Some show ?thesis
        by (auto simp: verify_challenge_def and_then_def is_set_def)
    next
      case True
      show ?thesis
      proof (cases "json_loads v")
        case (Inl e)
        have "e = JSONDecodeError"
          using Inl by (cases v) (auto split: sum.splits if_splits)
        with assms Up Some True Inl show ?thesis
          by (auto simp: verify_challenge_def and_then_def is_set_def)
      next
        case (Inr data)
        with assms Up Some True show ?thesis
          by (auto simp: verify_challenge_def and_then_def is_set_def
                   split: json_value.splits json_doc.splits)
      qed
    qed
  qed
qed

lemma verify_challenge_unresolvable:
  assumes "redis_get r (''asr:challenge:'' @ challenge_id) = Inr None
         \<or> (\<exists>v. redis_get r (''asr:challenge:'' @ challenge_id) = Inr (Some v)
                  \<and> (\<not> truthy v \<or> json_loads v = Inl JSONDecodeError))"
  shows "verify_challenge r challenge_id solution = Inr (False, r)"
  using assms by (auto simp: verify_challenge_def and_then_def is_set_def)

lemma server_verify_success_marks_used:
  assumes "ServerSidePoW_verify_challenge rc key now now_token challenge_id solution ip resource
             = Inr ((True, tok), rc')"
  shows "\<exists>m cd. rc' = Some (Up m) \<and> m (''pow:'' @ challenge_id) = Some (Doc (PowRec cd)) \<and> pr_used cd"
proof -
  from assms obtain r where rc: "rc = Some r"
    by (cases rc) (auto simp: ServerSidePoW_verify_challenge_def)
  from assms rc obtain m where r: "r = Up m"
    by (cases r) (auto simp: ServerSidePoW_verify_challenge_def and_then_def)
  from assms rc r obtain v where v: "m (''pow:'' @ challenge_id) = Some v"
    by (cases "m (''pow:'' @ challenge_id)")
       (auto simp: ServerSidePoW_verify_challenge_def and_then_def is_set_def)
  from assms rc r v obtain cd where cd: "json_loads v = Inr (JDict (PowRec cd))"
    by (auto simp: ServerSidePoW_verify_challenge_def and_then_def is_set_def
             split: if_splits sum.splits json_value.splits json_doc.splits)
  let ?m1 = "m(''pow:'' @ challenge_id \<mapsto> Doc (PowRec (cd\<lparr>pr_used := True\<rparr>)))"
  from assms rc r v cd
  have "\<exists>t. rc' = Some (Up (?m1(''pow_token:'' @ t \<mapsto> Doc (TokenRec ip resource \<lfloor>now_token\<rfloor>))))"
    by (auto simp: ServerSidePoW_verify_challenge_def and_then_def is_set_def Let_def
                   generate_access_token_def
             split: if_splits)
  then obtain t where
    "rc' = Some (Up (?m1(''pow_token:'' @ t \<mapsto> Doc (TokenRec ip resource \<lfloor>now_token\<rfloor>))))" ..
  moreover have "''pow_token:'' @ t \<noteq> ''pow:'' @ challenge_id"
    by (rule pow_token_key_differs)
  ultimately show ?thesis
    by (intro exI [of _ "?m1(''pow_token:'' @ t \<mapsto> Doc (TokenRec ip resource \<lfloor>now_token\<rfloor>))"]
              exI [of _ "cd\<lparr>pr_used := True\<rparr>"]) simp
qed

lemma server_verify_used_rejected:
  assumes "m (''pow:'' @ challenge_id) = Some (Doc (PowRec cd))" and "pr_used cd"
  shows "ServerSidePoW_verify_challenge (Some (Up m)) key now now_token challenge_id solution ip resource
           = Inr ((False, None), Some (Up m))"
  using assms by (simp add: ServerSidePoW_verify_challenge_def and_then_def is_set_def)

lemma server_verify_failure_keeps_store:
  assumes "ServerSidePoW_verify_challenge rc key now now_token challenge_id solution ip resource
             = Inr ((False, tok), rc')"
  shows "rc' = rc \<and> tok = None"
proof (cases rc)
  case None
  with assms show ?thesis
    by (simp add: ServerSidePoW_verify_challenge_def)
next
  case (Some r)
  show ?thesis
  proof (cases r)
    case Down
    with assms Some show ?thesis
      by (simp add: ServerSidePoW_verify_challenge_def and_then_def)
  next
    case (Up m)
    show ?thesis
    proof (cases "is_set (m (''pow:'' @ challenge_id))")
      case False
      with assms Some Up show ?thesis
        by (auto simp: ServerSidePoW_verify_challenge_def and_then_def)
    next
      case True
      then obtain v where v: "m (''pow:'' @ challenge_id) = Some v"
        by (auto simp: is_set_def split: option.splits)
      show ?thesis
      proof (cases "json_loads v")
        case (Inl e)
        with assms Some Up True v show ?thesis
          by (simp add: ServerSidePoW_verify_challenge_def and_then_def)
      next
        case (Inr loaded)
        with assms Some Up True v show ?thesis
          by (auto simp: ServerSidePoW_verify_challenge_def and_then_def Let_def
                         generate_access_token_def
                   split: json_value.splits json_doc.splits if_splits)
      qed
    qed
  qed
qed

text \<open>
  C1 (as the code has it). \<open>AdaptiveSecurityResponse.verify_challenge\<close>: after one call with
  a non-empty challenge id and a non-empty solution, whatever its outcome, a second call
  with the same id returns false; a call with an empty solution returns false and leaves
  the store as it was. \<open>ServerSidePoW.verify_challenge\<close>: after one call that returned
  true, every later call with the same id returns false; a call that returned false left
  the store as it was.
\<close>

theorem challenge_single_use:
  "(challenge_id \<noteq> [] \<and> solution \<noteq> [] \<and> verify_challenge r challenge_id solution = Inr (ok, r')
      \<longrightarrow> verify_challenge r' challenge_id solution' = Inr (False, r'))
   \<and> verify_challenge r challenge_id [] = Inr (False, r)
   \<and> (ServerSidePoW_verify_challenge rc key now now_token pow_id pow_solution ip resource
         = Inr ((True, tok), rc')
      \<longrightarrow> ServerSidePoW_verify_challenge rc' key' now' now_token' pow_id pow_solution' ip' resource'
         = Inr ((False, None), rc'))
   \<and> (ServerSidePoW_verify_challenge rc key now now_token pow_id pow_solution ip resource
         = Inr ((False, tok), rc')
      \<longrightarrow> rc' = rc)"
proof (intro conjI impI)
  assume "challenge_id \<noteq> [] \<and> solution \<noteq> [] \<and> verify_challenge r challenge_id solution = Inr (ok, r')"
  then show "verify_challenge r' challenge_id solution' = Inr (False, r')"
    by (intro verify_challenge_unresolvable verify_challenge_consumes [of challenge_id solution r ok]) simp_all
next
  show "verify_challenge r challenge_id [] = Inr (False, r)"
    by (simp add: verify_challenge_def)
next
  assume "ServerSidePoW_verify_challenge rc key now now_token pow_id pow_solution ip resource
            = Inr ((True, tok), rc')"
  then obtain m cd where "rc' = Some (Up m)" "m (''pow:'' @ pow_id) = Some (Doc (PowRec cd))" "pr_used cd"
    using server_verify_success_marks_used by blast
  then show "ServerSidePoW_verify_challenge rc' key' now' now_token' pow_id pow_solution' ip' resource'
           = Inr ((False, None), rc')"
    by (simp add: server_verify_used_rejected)
next
  assume "ServerSidePoW_verify_challenge rc key now now_token pow_id pow_solution ip resource
            = Inr ((False, tok), rc')"
  then show "rc' = rc"
    by (simp add: server_verify_failure_keeps_store)
qed

lemma zeros_3: "zeros 3 = ''000''"
  by (simp add: zeros_def eval_nat_numeral)

lemma math_issue:
  "create_challenge three_failures 2 4 asr_challenge asr_challenge_id 1000 ''203.0.113.7'' =
     Inr (Some (MathChallenge asr_challenge_id ''What is 3 + 5?'' 1),
          Up [''asr:attempts:ip:203.0.113.7'' \<mapsto> Text ''3'',
              ''asr:challenge:Zq3kT8vLw1nXy7Rb2mC5dA'' \<mapsto> Doc (MathDoc ''8'')])"
  by (simp add: create_challenge_def get_threat_level_def and_then_def
        max_attempts_def is_set_def three_failures_def int_of_str_def parse_nat_def digit_val_def
        find_level_ladder str_int_def str_nat.simps digit_char_def Let_def asr_challenge_id_def)

lemma math_verify:
  "verify_challenge
     (Up [''asr:attempts:ip:203.0.113.7'' \<mapsto> Text ''3'',
          ''asr:challenge:Zq3kT8vLw1nXy7Rb2mC5dA'' \<mapsto> Doc (MathDoc ''8'')]) asr_challenge_id solution =
     (if solution = []
      then Inr (False, Up [''asr:attempts:ip:203.0.113.7'' \<mapsto> Text ''3'',
                           ''asr:challenge:Zq3kT8vLw1nXy7Rb2mC5dA'' \<mapsto> Doc (MathDoc ''8'')])
      else Inr (solution = ''8'', Up [''asr:attempts:ip:203.0.113.7'' \<mapsto> Text ''3'']))"
  by (simp add: verify_challenge_def and_then_def is_set_def asr_challenge_id_def)

lemma pow_issue:
  "ServerSidePoW_create_challenge (Some (Up Map.empty)) ''secret'' pow_challenge_id pow_nonce 1000
     ''203.0.113.7'' ''file-1'' =
   Inr ((pow_challenge_id,
         \<lparr>pc_challenge_id = pow_challenge_id, pc_nonce = pow_nonce, pc_difficulty = 3,
          pc_target = ''000'',
          pc_signature = sign_challenge ''secret'' pow_challenge_id pow_nonce 3,
          pc_expires_in = 300\<rparr>),
        Some (Up [''pow:0a1b2c3d4e5f60718293a4b5c6d7e8f9'' \<mapsto>
                    Doc (PowRec \<lparr>pr_ip = ''203.0.113.7'', pr_resource = ''file-1'',
                                  pr_nonce = pow_nonce, pr_timestamp = 1000, pr_difficulty = 3,
                                  pr_used = False\<rparr>)]))"
  by (simp add: ServerSidePoW_create_challenge_def get_difficulty_for_ip_def and_then_def
        is_set_def Let_def zeros_3 challenge_ttl_def pow_challenge_id_def)

lemma pow_verify_near_miss:
  "ServerSidePoW_verify_challenge
     (Some (Up [''pow:0a1b2c3d4e5f60718293a4b5c6d7e8f9'' \<mapsto>
                  Doc (PowRec \<lparr>pr_ip = ''203.0.113.7'', pr_resource = ''file-1'',
                                pr_nonce = pow_nonce, pr_timestamp = 1000, pr_difficulty = 3,
                                pr_used = False\<rparr>)]))
     ''secret'' 1010 1010 pow_challenge_id ''227'' ''203.0.113.7'' ''file-1'' =
   Inr ((False, None),
        Some (Up [''pow:0a1b2c3d4e5f60718293a4b5c6d7e8f9'' \<mapsto>
                    Doc (PowRec \<lparr>pr_ip = ''203.0.113.7'', pr_resource = ''file-1'',
                                  pr_nonce = pow_nonce, pr_timestamp = 1000, pr_difficulty = 3,
                                  pr_used = False\<rparr>)]))"
  by (simp add: ServerSidePoW_verify_challenge_def and_then_def is_set_def Let_def zeros_3
        challenge_ttl_def pow_nonce_def pow_challenge_id_def sha256_pow_near_miss startswith_def)

lemma pow_verify_solved:
  "\<exists>tok rc2.
     ServerSidePoW_verify_challenge
       (Some (Up [''pow:0a1b2c3d4e5f60718293a4b5c6d7e8f9'' \<mapsto>
                    Doc (PowRec \<lparr>pr_ip = ''203.0.113.7'', pr_resource = ''file-1'',
                                  pr_nonce = pow_nonce, pr_timestamp = 1000, pr_difficulty = 3,
                                  pr_used = False\<rparr>)]))
       ''secret'' now now_token pow_challenge_id ''1074'' ''203.0.113.7'' ''file-1'' =
     (if now - 1000 > 300
      then Inr ((False, None),
             Some (Up [''pow:0a1b2c3d4e5f60718293a4b5c6d7e8f9'' \<mapsto>
                    Doc (PowRec \<lparr>pr_ip = ''203.0.113.7'', pr_resource = ''file-1'',
                                  pr_nonce = pow_nonce, pr_timestamp = 1000, pr_difficulty = 3,
                                  pr_used = False\<rparr>)]))
      else Inr ((True, Some tok), rc2))"
  by (simp add: ServerSidePoW_verify_challenge_def and_then_def is_set_def Let_def zeros_3
        challenge_ttl_def pow_nonce_def pow_challenge_id_def sha256_pow_solved startswith_def
        generate_access_token_def)

text \<open>
  C1 as stated fails. A verification with an empty solution is rejected before the lookup
  and leaves the math challenge in place, so the next call with the right answer succeeds;
  a wrong solution leaves the proof-of-work challenge of \<open>ServerSidePoW\<close> usable, so the
  next call with a valid solution succeeds.
\<close>

theorem challenge_single_use_counterexample:
  "math_trace [] ''8'' = Inr (Some (MathChallenge asr_challenge_id ''What is 3 + 5?'' 1), False, True)
   \<and> pow_trace ''227'' ''1074'' = Inr (3, False, True)"
proof
  show "math_trace [] ''8'' = Inr (Some (MathChallenge asr_challenge_id ''What is 3 + 5?'' 1), False, True)"
    by (simp add: math_trace_def math_issue math_verify and_then_def)
next
  obtain tok rc2 where
    "ServerSidePoW_verify_challenge
       (Some (Up [''pow:0a1b2c3d4e5f60718293a4b5c6d7e8f9'' \<mapsto>
                    Doc (PowRec \<lparr>pr_ip = ''203.0.113.7'', pr_resource = ''file-1'',
                                  pr_nonce = pow_nonce, pr_timestamp = 1000, pr_difficulty = 3,
                                  pr_used = False\<rparr>)]))
       ''secret'' 1020 1020 pow_challenge_id ''1074'' ''203.0.113.7'' ''file-1'' =
     Inr ((True, Some tok), rc2)"
    using pow_verify_solved [of 1020 1020] by auto
  then show "pow_trace ''227'' ''1074'' = Inr (3, False, True)"
    by (simp add: pow_trace_def pow_issue pow_verify_near_miss and_then_def)
qed

theorem challenge_single_use_witness:
  "math_trace ''9'' ''8'' = Inr (Some (MathChallenge asr_challenge_id ''What is 3 + 5?'' 1), False, False)
   \<and> pow_trace ''1074'' ''1074'' = Inr (3, True, False)"
proof
  let ?r1 = "Up [''asr:attempts:ip:203.0.113.7'' \<mapsto> Text ''3'',
                 ''asr:challenge:Zq3kT8vLw1nXy7Rb2mC5dA'' \<mapsto> Doc (MathDoc ''8'')]"
  let ?r2 = "Up [''asr:attempts:ip:203.0.113.7'' \<mapsto> Text ''3'']"
  have first: "verify_challenge ?r1 asr_challenge_id ''9'' = Inr (False, ?r2)"
    by (simp add: math_verify)
  have "asr_challenge_id \<noteq> [] \<and> ''9'' \<noteq> [] \<and> verify_challenge ?r1 asr_challenge_id ''9'' = Inr (False, ?r2)"
    using first by (simp add: asr_challenge_id_def)
  then have second: "verify_challenge ?r2 asr_challenge_id ''8'' = Inr (False, ?r2)"
    using challenge_single_use [THEN conjunct1] by blast
  show "math_trace ''9'' ''8'' = Inr (Some (MathChallenge asr_challenge_id ''What is 3 + 5?'' 1), False, False)"
    by (simp add: math_trace_def math_issue first second and_then_def)
next
  obtain tok rc2 where first:
    "ServerSidePoW_verify_challenge
       (Some (Up [''pow:0a1b2c3d4e5f60718293a4b5c6d7e8f9'' \<mapsto>
                    Doc (PowRec \<lparr>pr_ip = ''203.0.113.7'', pr_resource = ''file-1'',
                                  pr_nonce = pow_nonce, pr_timestamp = 1000, pr_difficulty = 3,
                                  pr_used = False\<rparr>)]))
       ''secret'' 1010 1010 pow_challenge_id ''1074'' ''203.0.113.7'' ''file-1'' =
     Inr ((True, Some tok), rc2)"
    using pow_verify_solved [of 1010 1010] by auto
  then have second:
    "ServerSidePoW_verify_challenge rc2 ''secret'' 1020 1020 pow_challenge_id ''1074''
       ''203.0.113.7'' ''file-1'' = Inr ((False, None), rc2)"
    using challenge_single_use [THEN conjunct2, THEN conjunct2, THEN conjunct1] by blast
  show "pow_trace ''1074'' ''1074'' = Inr (3, True, False)"
    by (simp add: pow_trace_def pow_issue first second and_then_def)
qed

section \<open>Proof-of-work acceptance\<close>

lemma startswith_replicate:
  "startswith h (replicate n c) \<longleftrightarrow> n \<le> length (takeWhile (\<lambda>x. x = c) h)"
proof (induction n arbitrary: h)
  case 0
  show ?case by (simp add: startswith_def)
next
  case (Suc n)
  show ?case
  proof (cases h)
    case Nil
    then show ?thesis by (simp add: startswith_def)
  next
    case (Cons x xs)
    with Suc [of xs] show ?thesis by (auto simp: startswith_def)
  qed
qed

lemma startswith_zeros: "startswith h (zeros d) \<longleftrightarrow> d \<le> int (leading_zeros h)"
  by (simp add: zeros_def leading_zeros_def startswith_replicate nat_le_iff)

text \<open>
  C3 (as the code has it). \<open>ServerSidePoW.verify_challenge\<close>, for a stored challenge that is
  unused, unexpired and bound to the caller's address and resource, accepts a solution
  \<open>s\<close> exactly when the SHA-256 hex digest of \<open>nonce + ":" + s\<close> has at least \<open>difficulty\<close>
  leading zeros. \<open>AdaptiveSecurityResponse.verify_challenge\<close>, for a stored proof-of-work
  challenge and a non-empty solution, accepts \<open>s\<close> exactly when the digest of
  \<open>challenge + s\<close>, with no separator, has at least \<open>difficulty\<close> leading zeros.
\<close>

theorem proof_of_work_acceptance:
  "(m (''pow:'' @ pow_id) = Some (Doc (PowRec cd)) \<and> \<not> pr_used cd \<and> pr_ip cd = ip
      \<and> pr_resource cd = resource \<and> now - real_of_int (pr_timestamp cd) \<le> 300
      \<longrightarrow> (\<exists>tok rc'.
            ServerSidePoW_verify_challenge (Some (Up m)) key now now_token pow_id s ip resource
              = Inr ((pr_difficulty cd
                        \<le> int (leading_zeros (sha256_hexdigest (pr_nonce cd @ '':'' @ s))), tok), rc')))
   \<and> (challenge_id \<noteq> [] \<and> s \<noteq> []
        \<and> m' (''asr:challenge:'' @ challenge_id) = Some (Doc (PowDoc challenge difficulty created))
      \<longrightarrow> verify_challenge (Up m') challenge_id s
            = Inr (difficulty \<le> int (leading_zeros (sha256_hexdigest (challenge @ s))),
                   Up (m'(''asr:challenge:'' @ challenge_id := None))))"
proof (intro conjI impI)
  assume a: "m (''pow:'' @ pow_id) = Some (Doc (PowRec cd)) \<and> \<not> pr_used cd \<and> pr_ip cd = ip
      \<and> pr_resource cd = resource \<and> now - real_of_int (pr_timestamp cd) \<le> 300"
  show "\<exists>tok rc'.
          ServerSidePoW_verify_challenge (Some (Up m)) key now now_token pow_id s ip resource
            = Inr ((pr_difficulty cd
                      \<le> int (leading_zeros (sha256_hexdigest (pr_nonce cd @ '':'' @ s))), tok), rc')"
  proof (cases "pr_difficulty cd \<le> int (leading_zeros (sha256_hexdigest (pr_nonce cd @ '':'' @ s)))")
    case True
    with a show ?thesis
      by (simp add: ServerSidePoW_verify_challenge_def and_then_def is_set_def Let_def
            challenge_ttl_def startswith_zeros generate_access_token_def)
  next
    case False
    with a show ?thesis
      by (simp add: ServerSidePoW_verify_challenge_def and_then_def is_set_def Let_def
            challenge_ttl_def startswith_zeros)
  qed
next
  assume "challenge_id \<noteq> [] \<and> s \<noteq> []
        \<and> m' (''asr:challenge:'' @ challenge_id) = Some (Doc (PowDoc challenge difficulty created))"
  then show "verify_challenge (Up m') challenge_id s
            = Inr (difficulty \<le> int (leading_zeros (sha256_hexdigest (challenge @ s))),
                   Up (m'(''asr:challenge:'' @ challenge_id := None)))"
    by (simp add: verify_challenge_def and_then_def is_set_def startswith_zeros)
qed

lemma pow_issue_five:
  "create_challenge five_failures 2 4 asr_challenge asr_challenge_id 1000 ''203.0.113.7'' =
     Inr (Some (PowChallenge asr_challenge_id asr_challenge 2),
          Up [''asr:attempts:ip:203.0.113.7'' \<mapsto> Text ''5'',
              ''asr:challenge:Zq3kT8vLw1nXy7Rb2mC5dA'' \<mapsto> Doc (PowDoc asr_challenge 2 1000)])"
  by (simp add: create_challenge_def get_threat_level_def and_then_def
        max_attempts_def is_set_def five_failures_def int_of_str_def parse_nat_def digit_val_def
        find_level_ladder Let_def asr_challenge_id_def)

lemma leading_zeros_asr_accepted: "leading_zeros (sha256_hexdigest (asr_challenge @ ''80'')) = 2"
  by (simp add: asr_challenge_def sha256_asr_accepted leading_zeros_def)

lemma leading_zeros_asr_with_colon: "leading_zeros (sha256_hexdigest (asr_challenge @ '':80'')) = 0"
  by (simp add: asr_challenge_def sha256_asr_with_colon leading_zeros_def)

lemma leading_zeros_pow_solved: "leading_zeros (sha256_hexdigest (pow_nonce @ '':1074'')) = 3"
  by (simp add: pow_nonce_def sha256_pow_solved leading_zeros_def)

text \<open>
  C3 as stated fails for \<open>AdaptiveSecurityResponse\<close>: the solution \<open>80\<close> is accepted at
  difficulty 2 although the digest of \<open>challenge + ":" + "80"\<close> has no leading zero.
\<close>

theorem proof_of_work_separator_counterexample:
  "asr_pow_trace ''80'' = Inr (Some (PowChallenge asr_challenge_id asr_challenge 2), True)
   \<and> leading_zeros (sha256_hexdigest (asr_challenge @ '':'' @ ''80'')) = 0"
  unfolding asr_pow_trace_def pow_issue_five
  by (simp add: and_then_def verify_challenge_def is_set_def
        asr_challenge_id_def startswith_zeros leading_zeros_asr_accepted
        leading_zeros_asr_with_colon)

theorem proof_of_work_acceptance_witness:
  "(\<exists>tok rc'.
      ServerSidePoW_verify_challenge
        (Some (Up [''pow:'' @ pow_challenge_id \<mapsto>
                     Doc (PowRec \<lparr>pr_ip = ''203.0.113.7'', pr_resource = ''file-1'',
                                   pr_nonce = pow_nonce, pr_timestamp = 1000, pr_difficulty = 3,
                                   pr_used = False\<rparr>)]))
        ''secret'' 1010 1010 pow_challenge_id ''1074'' ''203.0.113.7'' ''file-1''
      = Inr ((True, tok), rc'))
   \<and> leading_zeros (sha256_hexdigest (pow_nonce @ '':'' @ ''1074'')) = 3
   \<and> verify_challenge
        (Up [''asr:challenge:'' @ asr_challenge_id \<mapsto> Doc (PowDoc asr_challenge 2 1000)])
        asr_challenge_id ''80''
      = Inr (True, Up Map.empty)
   \<and> leading_zeros (sha256_hexdigest (asr_challenge @ ''80'')) = 2
   \<and> verify_challenge
        (Up [''asr:challenge:'' @ asr_challenge_id \<mapsto> Doc (PowDoc asr_challenge 2 1000)])
        asr_challenge_id '':80''
      = Inr (False, Up Map.empty)
   \<and> leading_zeros (sha256_hexdigest (asr_challenge @ '':80'')) = 0"
proof -
  let ?cd = "\<lparr>pr_ip = ''203.0.113.7'', pr_resource = ''file-1'', pr_nonce = pow_nonce,
              pr_timestamp = 1000, pr_difficulty = 3, pr_used = False\<rparr>"
  let ?m = "[''pow:'' @ pow_challenge_id \<mapsto> Doc (PowRec ?cd)]"
  let ?m' = "[''asr:challenge:'' @ asr_challenge_id \<mapsto> Doc (PowDoc asr_challenge 2 1000)]"
  note acceptance = proof_of_work_acceptance
  have server: "?m (''pow:'' @ pow_challenge_id) = Some (Doc (PowRec ?cd)) \<and> \<not> pr_used ?cd
      \<and> pr_ip ?cd = ''203.0.113.7'' \<and> pr_resource ?cd = ''file-1''
      \<and> 1010 - real_of_int (pr_timestamp ?cd) \<le> 300"
    by simp
  have asr1: "asr_challenge_id \<noteq> [] \<and> ''80'' \<noteq> []
      \<and> ?m' (''asr:challenge:'' @ asr_challenge_id) = Some (Doc (PowDoc asr_challenge 2 1000))"
    by (simp add: asr_challenge_id_def)
  have asr2: "asr_challenge_id \<noteq> [] \<and> '':80'' \<noteq> []
      \<and> ?m' (''asr:challenge:'' @ asr_challenge_id) = Some (Doc (PowDoc asr_challenge 2 1000))"
    by (simp add: asr_challenge_id_def)
  have "\<exists>tok rc'.
      ServerSidePoW_verify_challenge (Some (Up ?m)) ''secret'' 1010 1010 pow_challenge_id ''1074''
        ''203.0.113.7'' ''file-1''
      = Inr ((pr_difficulty ?cd
                \<le> int (leading_zeros (sha256_hexdigest (pr_nonce ?cd @ '':'' @ ''1074''))), tok), rc')"
    using server
      acceptance [where m = "?m" and pow_id = pow_challenge_id and cd = "?cd"
        and ip = "''203.0.113.7''" and resource = "''file-1''" and now = 1010
        and now_token = 1010 and key = "''secret''" and s = "''1074''", THEN conjunct1]
    by (rule rev_mp)
  then have "\<exists>tok rc'.
      ServerSidePoW_verify_challenge (Some (Up ?m)) ''secret'' 1010 1010 pow_challenge_id ''1074''
        ''203.0.113.7'' ''file-1'' = Inr ((True, tok), rc')"
    by (simp add: leading_zeros_pow_solved)
  moreover have "verify_challenge (Up ?m') asr_challenge_id ''80''
      = Inr (2 \<le> int (leading_zeros (sha256_hexdigest (asr_challenge @ ''80''))),
             Up (?m'(''asr:challenge:'' @ asr_challenge_id := None)))"
    using asr1
      acceptance [where m' = "?m'" and challenge_id = asr_challenge_id and s = "''80''"
        and challenge = asr_challenge and difficulty = 2 and created = 1000, THEN conjunct2]
    by (rule rev_mp)
  then have "verify_challenge (Up ?m') asr_challenge_id ''80'' = Inr (True, Up Map.empty)"
    by (simp add: leading_zeros_asr_accepted)
  moreover have "verify_challenge (Up ?m') asr_challenge_id '':80''
      = Inr (2 \<le> int (leading_zeros (sha256_hexdigest (asr_challenge @ '':80''))),
             Up (?m'(''asr:challenge:'' @ asr_challenge_id := None)))"
    using asr2
      acceptance [where m' = "?m'" and challenge_id = asr_challenge_id and s = "'':80''"
        and challenge = asr_challenge and difficulty = 2 and created = 1000, THEN conjunct2]
    by (rule rev_mp)
  then have "verify_challenge (Up ?m') asr_challenge_id '':80'' = Inr (False, Up Map.empty)"
    by (simp add: leading_zeros_asr_with_colon)
  ultimately show ?thesis
    by (simp add: leading_zeros_pow_solved leading_zeros_asr_accepted leading_zeros_asr_with_colon)
qed

section \<open>Failures recorded for an account\<close>

lemma lower_alice: "lower ''Alice@example.com'' = ''alice@example.com''"
  by (simp add: lower_def lower_char_def)

lemma lower_alice_idem: "lower ''alice@example.com'' = ''alice@example.com''"
  by (simp add: lower_def lower_char_def)

lemma str_int_small: "str_int 1 = ''1''" "str_int 2 = ''2''" "str_int 3 = ''3''"
  by (simp_all add: str_int_def str_nat.simps digit_char_def)

lemma int_of_str_small:
  "int_of_str ''1'' = Inr 1" "int_of_str ''2'' = Inr 2" "int_of_str ''3'' = Inr 3"
  by (simp_all add: int_of_str_def parse_nat_def digit_val_def)

text \<open>
  C5, evaluated on the code. After three failed logins for one account from one address
  the account's counter holds 3, yet a request of the same account from another address is
  given threat level 0 and no challenge: \<open>get_threat_level\<close> reads the three namespaces with
  the one identifier it is given (the address), never with the hashed login identifier.
\<close>

theorem account_failures_not_reflected:
  "failed_logins_trace =
     Inr (Some (Text ''3''),
          \<lparr>th_action = NoAction, th_difficulty = Some 0, th_attempts = 0\<rparr>,
          \<lparr>th_action = SimpleMath, th_difficulty = Some 1, th_attempts = 3\<rparr>)"
proof -
  have "length (take 16 (sha256_hexdigest ''alice@example.com'')) = 16"
    by (simp add: sha256_hexdigest_length)
  then have "length (take 16 (sha256_hexdigest ''alice@example.com'')) \<noteq> length ''203.0.113.9''"
    and "length (take 16 (sha256_hexdigest ''alice@example.com'')) \<noteq> length ''198.51.100.1''"
    by simp_all
  then have "''203.0.113.9'' \<noteq> take 16 (sha256_hexdigest ''alice@example.com'')"
    and "''198.51.100.1'' \<noteq> take 16 (sha256_hexdigest ''alice@example.com'')"
    by metis+
  then show ?thesis
    by (simp add: failed_logins_trace_def record_failure_def and_then_def given_def email_key_def
          lower_alice lower_alice_idem redis_incr_def get_threat_level_def
          max_attempts_def is_set_def find_level_ladder str_int_small int_of_str_small)
qed

section \<open>Single use of download tokens\<close>

lemma cleanup_keeps_consumed:
  "consumed toks token \<Longrightarrow> consumed (cleanup_expired toks current_time) token"
  by (auto simp: consumed_def cleanup_expired_def split: option.splits)

lemma verify_keeps_consumed:
  "consumed toks token \<Longrightarrow>
   consumed (snd (verify_download_token toks now token' file_id user_ip)) token"
  by (auto simp: consumed_def verify_download_token_def Let_def split: option.splits)

lemma create_keeps_consumed:
  assumes "sha256_hexdigest token' \<noteq> sha256_hexdigest token" and "consumed toks token"
  shows "consumed (snd (create_download_token toks token' now now_cleanup file_id user_ip pv)) token"
proof -
  let ?data = "\<lparr>td_file_id = file_id, td_user_ip = user_ip, td_password_verified = pv,
                 td_created_at = now, td_used = False\<rparr>"
  from assms have "consumed (toks(sha256_hexdigest token' \<mapsto> ?data)) token"
    by (simp add: consumed_def)
  then show ?thesis
    by (simp add: create_download_token_def Let_def cleanup_keeps_consumed)
qed

lemma run_call_keeps_consumed:
  assumes "\<forall>t. mints c = Some t \<longrightarrow> sha256_hexdigest t \<noteq> sha256_hexdigest token"
    and "consumed toks token"
  shows "consumed (run_call toks c) token"
  using assms by (cases c) (simp_all add: create_keeps_consumed verify_keeps_consumed)

lemma run_calls_keep_consumed:
  assumes "\<forall>c \<in> set calls. \<forall>t. mints c = Some t \<longrightarrow> sha256_hexdigest t \<noteq> sha256_hexdigest token"
    and "consumed toks token"
  shows "consumed (run_calls toks calls) token"
  using assms unfolding run_calls_def
proof (induction calls arbitrary: toks)
  case Nil
  then show ?case by simp
next
  case (Cons c calls)
  then show ?case by (simp add: run_call_keeps_consumed)
qed

lemma successful_redemption_consumes:
  "verify_download_token toks now token file_id user_ip = (True, toks') \<Longrightarrow> consumed toks' token"
  by (auto simp: consumed_def verify_download_token_def Let_def split: option.splits if_splits)

lemma consumed_token_rejected:
  "consumed toks token \<Longrightarrow> fst (verify_download_token toks now token file_id user_ip) = False"
  by (auto simp: consumed_def verify_download_token_def Let_def split: option.splits)

text \<open>
  C2. After one call of \<open>verify_download_token\<close> has returned true for a token, every later
  call with that token returns false, whatever calls on the manager come in between
  (further verifications, and mints of other tokens, whose digests differ from this
  token's): the successful redemption has marked the record used, and a used record is
  only ever removed.
\<close>

theorem download_token_single_use:
  assumes "verify_download_token toks now token file_id user_ip = (True, toks')"
    and "\<forall>c \<in> set calls. \<forall>t. mints c = Some t \<longrightarrow> sha256_hexdigest t \<noteq> sha256_hexdigest token"
  shows "fst (verify_download_token (run_calls toks' calls) now' token file_id' user_ip') = False"
  using assms
  by (intro consumed_token_rejected run_calls_keep_consumed successful_redemption_consumes)

lemma tokens_differ: "sha256_hexdigest other_token \<noteq> sha256_hexdigest download_token"
  by (simp add: other_token_def download_token_def sha256_other_token sha256_download_token)

lemma redeem_minted:
  "verify_download_token minted 1010 download_token ''file-1'' ''203.0.113.7'' = (True, redeemed)"
  by (simp add: redeemed_def minted_def verify_download_token_def create_download_token_def
        cleanup_expired_def token_expiry_def Let_def download_token_def)

theorem download_token_single_use_witness:
  "verify_download_token minted 1010 download_token ''file-1'' ''203.0.113.7'' = (True, redeemed)
   \<and> fst (verify_download_token (run_calls redeemed later_calls) 1014 download_token
             ''file-1'' ''203.0.113.7'') = False"
proof -
  have "\<forall>c \<in> set later_calls. \<forall>t. mints c = Some t
          \<longrightarrow> sha256_hexdigest t \<noteq> sha256_hexdigest download_token"
    by (simp add: later_calls_def tokens_differ)
  with redeem_minted show ?thesis
    using download_token_single_use
      [of minted 1010 download_token "''file-1''" "''203.0.113.7''" redeemed later_calls]
    by simp
qed

section \<open>Password verification of a shared file\<close>

lemma str_int_values:
  "str_int 0 = ''0''" "str_int 5 = ''5''" "str_int 7 = ''7''" "str_int 9 = ''9''"
  "str_int 12 = ''12''"
  by (simp_all add: str_int_def str_nat.simps digit_char_def)

lemma visitor_captcha:
  "generate_captcha store ''secret'' (env_draw visitor) =
     ((take 16 (sha256_hexdigest ''121000.25secret''), ''What is 7 + 5?''),
      captcha_cleanup_expired
        (store(take 16 (sha256_hexdigest ''121000.25secret'')
                 \<mapsto> \<lparr>cp_answer = ''12'', cp_created_at = 1000\<rparr>)) 1000)"
  by (simp add: generate_captcha_def visitor_def str_int_values Let_def)

lemma captcha_generated:
  "\<exists>captcha_id question captchas.
     generate_captcha store secret_key draw = ((captcha_id, question), captchas)"
  by (metis prod.exhaust)

lemma log_event_file_id:
  "log_event s event_type ip_address (UuidObject u) severity = Inl DBAPIError"
  by (simp add: log_event_def)

lemma log_event_no_resource:
  "log_event s event_type ip_address NoResource severity =
     Inr (s\<lparr>st_audit := st_audit s @ [(event_type, ip_address, None, severity)]\<rparr>)"
  by (simp add: log_event_def)

text \<open>What the stage does in each of its three branches.\<close>

lemma password_stage_locked:
  assumes "has_limit file"
    and "f_failed_password_attempts file \<ge> the (f_max_password_attempts file)"
  shows "password_stage verify_password s env code file data =
           \<lparr>oc_response = InternalServerError DBAPIError, oc_state = s, oc_slept = None\<rparr>"
  using assms by (simp add: password_stage_def log_event_file_id)

lemma password_stage_wrong:
  assumes "\<not> (has_limit file
              \<and> f_failed_password_attempts file \<ge> the (f_max_password_attempts file))"
    and "\<not> verify_password (rq_password data) (the (f_password_hash file))"
  shows "password_stage verify_password s env code file data =
           \<lparr>oc_response = InternalServerError DBAPIError,
            oc_state = s\<lparr>st_files := (st_files s)(code \<mapsto>
                          file\<lparr>f_failed_password_attempts := f_failed_password_attempts file + 1\<rparr>)\<rparr>,
            oc_slept = None\<rparr>"
  using assms by (auto simp: password_stage_def log_event_file_id Let_def)

lemma password_stage_right:
  assumes "\<not> (has_limit file
              \<and> f_failed_password_attempts file \<ge> the (f_max_password_attempts file))"
    and "verify_password (rq_password data) (the (f_password_hash file))"
  shows "oc_response (password_stage verify_password s env code file data)
           = InternalServerError DBAPIError
       \<and> oc_slept (password_stage verify_password s env code file data) = None"
  using assms by (auto simp: password_stage_def log_event_file_id Let_def split: prod.splits)

lemma password_stage_response:
  "oc_response (password_stage verify_password s env code file data) = InternalServerError DBAPIError
   \<and> oc_slept (password_stage verify_password s env code file data) = None"
proof (cases "has_limit file
              \<and> f_failed_password_attempts file \<ge> the (f_max_password_attempts file)")
  case True
  then show ?thesis by (simp add: password_stage_locked)
next
  case False
  then show ?thesis
    by (cases "verify_password (rq_password data) (the (f_password_hash file))")
       (simp_all add: password_stage_wrong password_stage_right)
qed

text \<open>
  C7 (as the code has it). For a password-protected file whose limit is set (not 0) and
  reached, every password verification request is rejected without the password being
  checked: no download token is handed out, and the file's record, the tokens and the time
  slept are untouched. The rejection is not always the "locked" response: with 3 or more
  recorded failures and no CAPTCHA id and answer in the request, the CAPTCHA check, which
  comes before the lock check, answers 428 "captcha required".
\<close>

theorem locked_file_rejects:
  assumes "select_file (st_files s) code = Some file"
    and "given (f_password_hash file)"
    and "f_max_password_attempts file = Some limit" and "limit \<noteq> 0"
    and "f_failed_password_attempts file \<ge> limit"
  shows "st_files (oc_state (verify_file_password verify_password s env code data)) = st_files s
       \<and> st_tokens (oc_state (verify_file_password verify_password s env code data)) = st_tokens s
       \<and> oc_slept (verify_file_password verify_password s env code data) = None
       \<and> verify_file_password verify_password s env code data
           = verify_file_password verify_password' s env code data
       \<and> \<not> grants_access (oc_response (verify_file_password verify_password s env code data))
       \<and> (f_failed_password_attempts file \<ge> 3
            \<and> (\<not> given (rq_captcha_id data) \<or> \<not> given (rq_captcha_answer data))
          \<longrightarrow> oc_response (verify_file_password verify_password s env code data) =
                HTTPException 428
                  (CaptchaRequired
                     (fst (fst (generate_captcha (st_captchas s) (env_secret_key env) (env_draw env))))
                     (snd (fst (generate_captcha (st_captchas s) (env_secret_key env) (env_draw env))))
                     (limit - f_failed_password_attempts file) None))"
proof -
  from assms have lim: "has_limit file"
    and reached: "f_failed_password_attempts file \<ge> the (f_max_password_attempts file)"
    by (simp_all add: has_limit_def)
  have stage: "password_stage vp s' env code file data =
           \<lparr>oc_response = InternalServerError DBAPIError, oc_state = s', oc_slept = None\<rparr>" for vp s'
    by (rule password_stage_locked [OF lim reached])
  obtain captcha_id question captchas where gen:
    "generate_captcha (st_captchas s) (env_secret_key env) (env_draw env)
       = ((captcha_id, question), captchas)"
    using captcha_generated by blast
  obtain ok captchas' where ver:
    "verify_captcha (st_captchas s) (env_now env) (the (rq_captcha_id data))
       (the (rq_captcha_answer data)) = (ok, captchas')"
    by (metis prod.exhaust)
  have remaining: "attempts_remaining file = limit - f_failed_password_attempts file"
    using assms lim by (simp add: attempts_remaining_def)
  show ?thesis
  proof (cases "f_failed_password_attempts file < 3")
    case True
    with assms show ?thesis
      by (simp add: verify_file_password_def stage)
  next
    case False
    note high = this
    show ?thesis
    proof (cases "\<not> given (rq_captcha_id data) \<or> \<not> given (rq_captcha_answer data)")
      case True
      with assms high show ?thesis
        by (simp add: verify_file_password_def gen remaining)
    next
      case False
      with assms high show ?thesis
        by (cases ok) (simp_all add: verify_file_password_def ver stage log_event_file_id)
    qed
  qed
qed

text \<open>
  C7 as stated fails: with limit 10 and 10 recorded failures, a request with the correct
  password and no CAPTCHA is answered 428 "captcha required", not "locked".
\<close>

theorem locked_file_captcha_first_counterexample:
  "oc_response (verify_file_password stub_verify_password (site (Some 10) 10) visitor ''abc123''
                  (attempt ''hunter2''))
     = HTTPException 428
         (CaptchaRequired (take 16 (sha256_hexdigest ''121000.25secret'')) ''What is 7 + 5?'' 0 None)
   \<and> oc_response (verify_file_password stub_verify_password (site (Some 10) 10) visitor ''abc123''
                  (attempt ''hunter2''))
     \<noteq> locked_response"
proof -
  have "env_secret_key visitor = ''secret''"
    by (simp add: visitor_def)
  then show ?thesis
    by (simp add: verify_file_password_def select_file_def site_def shared_file_def given_def
          attempt_def visitor_captcha attempts_remaining_def has_limit_def locked_response_def)
qed

theorem locked_file_rejects_witness:
  "oc_response (verify_file_password stub_verify_password (site (Some 10) 10) visitor ''abc123''
                  (attempt ''hunter2''))
     = HTTPException 428
         (CaptchaRequired (take 16 (sha256_hexdigest ''121000.25secret'')) ''What is 7 + 5?'' 0 None)
   \<and> st_files (oc_state (verify_file_password stub_verify_password (site (Some 10) 10) visitor
                  ''abc123'' (attempt ''hunter2''))) = st_files (site (Some 10) 10)
   \<and> \<not> grants_access
         (oc_response (verify_file_password stub_verify_password (site (Some 10) 10) visitor
                         ''abc123'' (attempt_with_captcha ''hunter2'')))
   \<and> \<not> grants_access
         (oc_response (verify_file_password stub_verify_password (site (Some 2) 2) visitor
                         ''abc123'' (attempt ''hunter2'')))"
proof -
  have a: "select_file (st_files (site (Some lim) n)) ''abc123'' = Some (shared_file (Some lim) n)"
    for lim n
    by (simp add: select_file_def site_def shared_file_def)
  have c: "given (f_password_hash (shared_file lim n))" for lim n
    by (simp add: shared_file_def given_def)
  have d: "f_max_password_attempts (shared_file (Some lim) n) = Some lim" for lim n
    by (simp add: shared_file_def)
  have e: "f_failed_password_attempts (shared_file lim n) = n" for lim n
    by (simp add: shared_file_def)
  have key: "env_secret_key visitor = ''secret''"
    by (simp add: visitor_def)
  note rejects = locked_file_rejects
  have first: "10 \<noteq> (0::int)" "(10::int) \<le> 10" and second: "2 \<noteq> (0::int)" "(2::int) \<le> 2"
    by simp_all
  from rejects [OF a c d first(1), of 10 stub_verify_password visitor "attempt ''hunter2''"
                  stub_verify_password]
  have one: "st_files (oc_state (verify_file_password stub_verify_password (site (Some 10) 10)
                 visitor ''abc123'' (attempt ''hunter2''))) = st_files (site (Some 10) 10)
     \<and> oc_response (verify_file_password stub_verify_password (site (Some 10) 10) visitor ''abc123''
                  (attempt ''hunter2''))
       = HTTPException 428
           (CaptchaRequired (take 16 (sha256_hexdigest ''121000.25secret'')) ''What is 7 + 5?'' 0 None)"
    by (simp add: e attempt_def given_def key visitor_captcha)
  from rejects [OF a c d first(1), of 10 stub_verify_password visitor
                  "attempt_with_captcha ''hunter2''" stub_verify_password]
  have two: "\<not> grants_access
         (oc_response (verify_file_password stub_verify_password (site (Some 10) 10) visitor
                         ''abc123'' (attempt_with_captcha ''hunter2'')))"
    by (simp add: e)
  from rejects [OF a c d second(1), of 2 stub_verify_password visitor "attempt ''hunter2''"
                  stub_verify_password]
  have three: "\<not> grants_access
         (oc_response (verify_file_password stub_verify_password (site (Some 2) 2) visitor
                         ''abc123'' (attempt ''hunter2'')))"
    by (simp add: e)
  from one two three show ?thesis
    by simp
qed

lemma existing_file_response:
  assumes "select_file (st_files s) code = Some file"
  shows "oc_response (verify_file_password verify_password s env code data) \<noteq> not_found_response"
proof -
  obtain captcha_id question captchas where gen:
    "generate_captcha (st_captchas s) (env_secret_key env) (env_draw env)
       = ((captcha_id, question), captchas)"
    using captcha_generated by blast
  obtain ok captchas' where ver:
    "verify_captcha (st_captchas s) (env_now env) (the (rq_captcha_id data))
       (the (rq_captcha_answer data)) = (ok, captchas')"
    by (metis prod.exhaust)
  have stage: "oc_response (password_stage verify_password s' env code file data)
                 = InternalServerError DBAPIError" for s'
    by (simp add: password_stage_response)
  from assms show ?thesis
    by (cases ok)
       (simp_all add: verify_file_password_def gen ver stage log_event_file_id
          not_found_response_def)
qed

text \<open>
  C8 (as the code has it). An unknown code is answered 404 "File not found"; no request
  for an existing file is ever answered so. The two cases are distinguishable.
\<close>

theorem unknown_code_distinguishable:
  "(select_file (st_files s) code = None
      \<longrightarrow> oc_response (verify_file_password verify_password s env code data) = not_found_response)
   \<and> (select_file (st_files s') code' = Some file
      \<longrightarrow> oc_response (verify_file_password verify_password' s' env' code' data')
            \<noteq> not_found_response)"
  by (simp add: existing_file_response)
     (simp add: verify_file_password_def log_event_no_resource not_found_response_def)

text \<open>
  C8 as stated fails: the unknown code \<open>zzz999\<close> is answered 404 "File not found"; a wrong
  password for the existing code \<open>abc123\<close>, which has three recorded failures, is answered
  428 with a CAPTCHA question and the attempts that remain.
\<close>

theorem unknown_code_counterexample:
  "oc_response (verify_file_password stub_verify_password (site (Some 10) 3) visitor ''zzz999''
                  (attempt ''letmein''))
     = HTTPException 404 (Message ''File not found'')
   \<and> oc_response (verify_file_password stub_verify_password (site (Some 10) 3) visitor ''abc123''
                  (attempt ''letmein''))
     = HTTPException 428
         (CaptchaRequired (take 16 (sha256_hexdigest ''121000.25secret'')) ''What is 7 + 5?'' 7 None)"
proof -
  have "env_secret_key visitor = ''secret''"
    by (simp add: visitor_def)
  then show ?thesis
    by (simp add: verify_file_password_def select_file_def site_def shared_file_def given_def
          attempt_def visitor_captcha attempts_remaining_def has_limit_def log_event_no_resource)
qed

theorem unknown_code_distinguishable_witness:
  "select_file (st_files (site (Some 10) 3)) ''zzz999'' = None
   \<and> oc_response (verify_file_password stub_verify_password (site (Some 10) 3) visitor ''zzz999''
                  (attempt ''letmein'')) = not_found_response
   \<and> select_file (st_files (site (Some 10) 3)) ''abc123'' = Some (shared_file (Some 10) 3)
   \<and> oc_response (verify_file_password stub_verify_password (site (Some 10) 3) visitor ''abc123''
                  (attempt ''letmein'')) \<noteq> not_found_response"
proof -
  have a: "select_file (st_files (site (Some 10) 3)) ''zzz999'' = None"
    and b: "select_file (st_files (site (Some 10) 3)) ''abc123'' = Some (shared_file (Some 10) 3)"
    by (simp_all add: select_file_def site_def shared_file_def)
  from a b unknown_code_distinguishable
         [of "site (Some 10) 3" "''zzz999''" stub_verify_password visitor "attempt ''letmein''"
             "site (Some 10) 3" "''abc123''" "shared_file (Some 10) 3" stub_verify_password visitor
             "attempt ''letmein''"]
  show ?thesis by simp
qed

section \<open>The delay after a wrong password\<close>

text \<open>The arithmetic of the sleep line: \<open>2 ** min(n, 5)\<close> is \<open>min(2^n, 32)\<close> for \<open>n \<ge> 0\<close>.\<close>

lemma backoff_delay_capped:
  assumes "0 \<le> n"
  shows "backoff_delay n = min (2 ^ nat n) 32"
proof (cases "n \<le> 5")
  case True
  with assms have "nat n \<le> 5" by simp
  then have "(2::real) ^ nat n \<le> 2 ^ 5"
    by (intro power_increasing) simp_all
  with True assms show ?thesis
    by (simp add: backoff_delay_def min_def)
next
  case False
  then have "5 \<le> nat n" by simp
  then have "(2::real) ^ 5 \<le> 2 ^ nat n"
    by (intro power_increasing) simp_all
  with False show ?thesis
    by (simp add: backoff_delay_def min_def)
qed

text \<open>The sleep line is never reached: the audit insert before it raises.\<close>

lemma no_request_is_delayed:
  "oc_slept (verify_file_password verify_password s env code data) = None"
proof (cases "select_file (st_files s) code")
  case None
  then show ?thesis
    by (simp add: verify_file_password_def log_event_no_resource)
next
  case (Some found)
  obtain captcha_id question captchas where gen:
    "generate_captcha (st_captchas s) (env_secret_key env) (env_draw env)
       = ((captcha_id, question), captchas)"
    using captcha_generated by blast
  obtain ok captchas' where ver:
    "verify_captcha (st_captchas s) (env_now env) (the (rq_captcha_id data))
       (the (rq_captcha_answer data)) = (ok, captchas')"
    by (metis prod.exhaust)
  have stage: "oc_slept (password_stage verify_password s' env code found data) = None" for s'
    by (simp add: password_stage_response)
  from Some show ?thesis
    by (cases ok) (simp_all add: verify_file_password_def gen ver stage log_event_file_id)
qed

text \<open>
  C9, evaluated on the code. A wrong password for a file with no recorded failure: the
  counter is incremented to 1 and committed, then the audit insert (called with
  \<open>resource_id=file.id\<close>) raises before the sleep line is reached. The request ends with
  HTTP 500 and no delay, where the sleep line would have waited
  \<open>2 ** min(1, 5) = min(2^1, 32) = 2\<close> seconds.
\<close>

theorem wrong_password_not_delayed:
  "oc_response wrong_password_request = InternalServerError DBAPIError
   \<and> oc_slept wrong_password_request = None
   \<and> map_option f_failed_password_attempts (st_files (oc_state wrong_password_request) ''abc123'')
       = Some 1
   \<and> backoff_delay 1 = 2
   \<and> backoff_delay 1 = min (2 ^ 1) 32"
  by (simp add: wrong_password_request_def verify_file_password_def password_stage_def
        select_file_def site_def shared_file_def given_def attempt_def visitor_def Let_def
        has_limit_def stub_verify_password_def log_event_file_id backoff_delay_def)

section \<open>The bandwidth check\<close>

lemma quotient_in_float_range:
  assumes "big_integer a" and "b \<noteq> 0"
  shows "\<bar>real_of_int a / real_of_int b\<bar> < 2 ^ 1024 - 2 ^ 970"
proof -
  from assms(2) have "1 \<le> \<bar>b\<bar>"
    by simp
  then have "1 \<le> \<bar>real_of_int b\<bar>"
    by (metis of_int_1_le_iff of_int_abs)
  then have "\<bar>real_of_int a\<bar> / \<bar>real_of_int b\<bar> \<le> \<bar>real_of_int a\<bar> / 1"
    by (intro divide_left_mono) simp_all
  then have "\<bar>real_of_int a / real_of_int b\<bar> \<le> \<bar>real_of_int a\<bar>"
    by (simp add: abs_divide)
  also from assms(1) have "\<bar>a\<bar> \<le> 2 ^ 63"
    by (simp add: big_integer_def abs_le_iff)
  then have "\<bar>real_of_int a\<bar> \<le> 2 ^ 63"
    by (metis of_int_abs of_int_le_iff of_int_numeral of_int_power)
  also have "(2::real) ^ 63 < 2 ^ 1024 - 2 ^ 970"
    by simp
  finally show ?thesis .
qed

text \<open>
  C10. For every file with a positive size (sizes and counters within the range of their
  \<open>BigInteger\<close> columns) and every tier, \<open>check_bandwidth_abuse\<close> returns pass with no
  reason; and for no file at all does it return a flag, since every tier's threshold is
  infinite.
\<close>

theorem bandwidth_never_flagged:
  "(0 < f_file_size file
      \<and> (case f_bandwidth_used file of None \<Rightarrow> True | Some used \<Rightarrow> big_integer used)
      \<longrightarrow> check_bandwidth_abuse file user_tier = Inr (True, None))
   \<and> check_bandwidth_abuse file' user_tier' \<noteq> Inr (False, reason)"
proof (intro conjI impI)
  assume a: "0 < f_file_size file
      \<and> (case f_bandwidth_used file of None \<Rightarrow> True | Some used \<Rightarrow> big_integer used)"
  show "check_bandwidth_abuse file user_tier = Inr (True, None)"
  proof (cases "f_bandwidth_used file")
    case None
    then show ?thesis by (simp add: check_bandwidth_abuse_def)
  next
    case (Some used)
    with a have "\<bar>real_of_int used / real_of_int (f_file_size file)\<bar> < 2 ^ 1024 - 2 ^ 970"
      by (intro quotient_in_float_range) simp_all
    with a Some show ?thesis
      by (cases user_tier) (simp_all add: check_bandwidth_abuse_def py_truediv_def and_then_def)
  qed
next
  show "check_bandwidth_abuse file' user_tier' \<noteq> Inr (False, reason)"
    by (cases user_tier')
       (auto simp: check_bandwidth_abuse_def py_truediv_def and_then_def Let_def
             split: option.splits if_splits)
qed

theorem bandwidth_never_flagged_witness:
  "0 < f_file_size (shared_file None 0)
   \<and> f_bandwidth_used (shared_file None 0) = Some 5242880
   \<and> big_integer 5242880
   \<and> check_bandwidth_abuse (shared_file None 0) TierFree = Inr (True, None)"
proof -
  have "0 < f_file_size (shared_file None 0)
      \<and> (case f_bandwidth_used (shared_file None 0) of None \<Rightarrow> True | Some used \<Rightarrow> big_integer used)"
    by (simp add: shared_file_def big_integer_def)
  with bandwidth_never_flagged [THEN conjunct1, of "shared_file None 0" TierFree]
  show ?thesis
    by (simp add: shared_file_def big_integer_def)
qed

end
